theory Spec2Isabelle
  imports Main
begin

section \<open>JavaScript strings and arrays\<close>

text \<open>
  Strings are lists of code units, restricted here to the range U+0000..U+00FF that
  \<^typ>\<open>char\<close> covers. \<open>String.prototype.trim\<close> removes the white space and line
  terminators of that range from both ends.
\<close>

definition nl :: char where
  "nl = CHR 0x0A"

definition isWhiteSpace :: "char \<Rightarrow> bool" where
  "isWhiteSpace c =
     (c \<in> set [CHR 0x09, CHR 0x0A, CHR 0x0B, CHR 0x0C, CHR 0x0D, CHR 0x20, CHR 0xA0])"

definition trim :: "string \<Rightarrow> string" where
  "trim s = rev (dropWhile isWhiteSpace (rev (dropWhile isWhiteSpace s)))"

text \<open>\<open>s.split(sep)\<close> for a one-character separator: never an empty array.\<close>

fun split :: "char \<Rightarrow> string \<Rightarrow> string list" where
  "split sep [] = [[]]"
| "split sep (c # cs) =
     (if c = sep then [] # split sep cs
      else (case split sep cs of
              [] \<Rightarrow> [[c]]
            | piece # pieces \<Rightarrow> (c # piece) # pieces))"

text \<open>\<open>xs.join(sep)\<close>.\<close>

fun join :: "string \<Rightarrow> string list \<Rightarrow> string" where
  "join sep [] = []"
| "join sep [x] = x"
| "join sep (x # y # ys) = x @ sep @ join sep (y # ys)"

text \<open>\<open>s.replace(/\n/g, '<br>')\<close>.\<close>

definition replaceNewlines :: "string \<Rightarrow> string" where
  "replaceNewlines s = concat (map (\<lambda>c. if c = nl then ''<br>'' else [c]) s)"

text \<open>Decimal rendering of a number inside a template literal.\<close>

fun showNat :: "nat \<Rightarrow> string" where
  "showNat n =
     (if n < 10 then [''0123456789'' ! n]
      else showNat (n div 10) @ [''0123456789'' ! (n mod 10)])"

declare showNat.simps [simp del]

text \<open>
  \<open>xs.slice(start, end)\<close>: a negative index counts from the end, and both indices
  are clamped to the array.
\<close>

definition slice :: "'a list \<Rightarrow> int \<Rightarrow> int \<Rightarrow> 'a list" where
  "slice xs start fin =
     (let len = int (length xs);
          k = (if start < 0 then max (len + start) 0 else min start len);
          final = (if fin < 0 then max (len + fin) 0 else min fin len)
      in take (nat (final - k)) (drop (nat k) xs))"

section \<open>Category parsing (generateCombinedSummary, lines 64 to 69)\<close>

record Category =
  name :: string
  description :: string

definition parseCategories :: "string \<Rightarrow> Category list" where
  "parseCategories categorization =
     map (\<lambda>line.
            \<lparr>name = (if CHR '':'' \<in> set line then trim (hd (split CHR '':'' line))
                     else trim line),
             description = trim line\<rparr>)
         (filter (\<lambda>line. length (trim line) > 0) (split nl categorization))"

section \<open>Partitioning (processBatches, lines 21 to 24)\<close>

text \<open>
  The \<open>for\<close> loop that fills \<open>batches\<close>. With a batch size that is not positive the
  index never reaches the length of a non-empty array and the loop does not end, which
  is the value \<open>None\<close> here.
\<close>

partial_function (option) batches_loop ::
  "'a list \<Rightarrow> int \<Rightarrow> int \<Rightarrow> 'a list list \<Rightarrow> 'a list list option" where
  "batches_loop emails batchSize i batches =
     (if i < int (length emails)
      then batches_loop emails batchSize (i + batchSize)
             (batches @ [slice emails i (i + batchSize)])
      else Some batches)"

text \<open>
  The partition in the words of the specification: cut the first \<open>n\<close> elements off
  until nothing is left.
\<close>

function chunks :: "nat \<Rightarrow> 'a list \<Rightarrow> 'a list list" where
  "chunks n xs = (if n = 0 \<or> xs = [] then [] else take n xs # chunks n (drop n xs))"
  by pat_completeness auto
termination
  by (relation "measure (\<lambda>(n, xs). length xs)") auto

declare chunks.simps [simp del]

section \<open>Data model (models/email.js, models/summary.js)\<close>

text \<open>
  Object identifiers are natural numbers and dates are milliseconds since the epoch.
  The fields of a message that the summary pipeline never reads (thread, recipients,
  labels, attachments, \<open>isProcessed\<close>, metadata, timestamps) are left out.
\<close>

type_synonym ObjectId = nat
type_synonym Date = int

datatype error =
    Error string
  | ProviderError string
  | ValidationError string
  | DuplicateKeyError string
  | DatabaseError string

record Email =
  email_id :: ObjectId
  messageId :: string
  fromAddr :: string
  subject :: "string option"
  snippet :: "string option"
  body :: string
  receivedAt :: Date
  isSummarized :: bool

record PreparedEmail =
  prepared_id :: ObjectId
  prepared_subject :: "string option"
  prepared_from :: string
  prepared_receivedAt :: Date
  prepared_content :: string
  prepared_snippet :: "string option"

record Summary =
  summary_id :: ObjectId
  date :: Date
  topicCategories :: "Category list"
  content :: string
  emailCount :: nat
  emailIds :: "ObjectId list"
  isDistributed :: bool
  distributedAt :: "Date option"
  distributionRecipients :: "string list"

record BatchSummary =
  batch_emails :: "PreparedEmail list"
  batch_summary :: string

section \<open>Collaborators and process state\<close>

text \<open>A request to \<open>openai.chat.completions.create\<close> (the temperature is left out).\<close>

record ChatRequest =
  model :: string
  systemPrompt :: string
  userPrompt :: string
  max_tokens :: nat

text \<open>The argument of sendEmail, the message handed to the mail service and its answer.\<close>

record Mail =
  mail_to :: string
  mail_subject :: string
  mail_html :: "string option"
  mail_text :: "string option"

record OutMail =
  out_from :: string
  out_to :: string
  out_subject :: string
  out_html :: "string option"
  out_text :: "string option"

record SendResult =
  result_id :: "string option"
  result_mock :: bool
  result_error :: "string option"

datatype EmailService = ResendClient | MockTransport

datatype LogEntry = LogInfo string | LogError string error

text \<open>
  Everything the code reads from outside: the host's calendar functions, the process
  environment, and the outcomes of the external services. The chat and mail services
  answer by call number, so the same request may fail once and succeed later.
  \<open>EMAILS_BATCH_SIZE\<close> holds the result of \<open>parseInt\<close>, \<open>None\<close> for NaN.
  \<open>concurrentWrites\<close> is what other processes do to the summaries collection while
  this run waits for the generation backend. A database write may be rejected:
  \<open>updateManyError\<close> is the error of \<open>Email.updateMany\<close>, and \<open>updateManyWritten\<close>
  tells which of the matched documents that rejected update had written all the same
  (the update runs document by document, outside any transaction);
  \<open>saveExistingError\<close> is the error of the \<open>save\<close> of a loaded summary, and
  \<open>saveExistingWritten\<close> tells whether the store took that write before the error
  reached the caller.
\<close>

record env =
  setHoursStart :: "Date \<Rightarrow> Date"
  setHoursEnd :: "Date \<Rightarrow> Date"
  toDateString :: "Date \<Rightarrow> string"
  toISOString :: "Date \<Rightarrow> string"
  dateToString :: "Date \<Rightarrow> string"
  now :: Date
  EMAILS_BATCH_SIZE :: "int option"
  SUMMARY_RECIPIENT_EMAIL :: "string option"
  NODE_ENV :: "string option"
  RESEND_API_KEY :: "string option"
  EMAIL_FROM :: "string option"
  chatCompletion :: "nat \<Rightarrow> ChatRequest \<Rightarrow> error + string"
  updateManyError :: "error option"
  updateManyWritten :: "ObjectId \<Rightarrow> bool"
  saveExistingError :: "error option"
  saveExistingWritten :: bool
  concurrentWrites :: "Summary list \<Rightarrow> Summary list"
  resendInitError :: "error option"
  resendSend :: "nat \<Rightarrow> OutMail \<Rightarrow> error + SendResult"

text \<open>
  The two collections, the module state of the notification service, and three
  traces: the chat requests made with their outcomes, the arguments of every sendEmail
  invocation, and the logger's entries.
\<close>

record world =
  summaries :: "Summary list"
  emails :: "Email list"
  emailService :: "EmailService option"
  useMockTransport :: bool
  backendLog :: "(ChatRequest \<times> (error + string)) list"
  sentMail :: "Mail list"
  logged :: "LogEntry list"

definition logInfo :: "string \<Rightarrow> world \<Rightarrow> world" where
  "logInfo msg s = s\<lparr>logged := logged s @ [LogInfo msg]\<rparr>"

definition logError :: "string \<Rightarrow> error \<Rightarrow> world \<Rightarrow> world" where
  "logError msg e s = s\<lparr>logged := logged s @ [LogError msg e]\<rparr>"

definition truthy :: "string option \<Rightarrow> bool" where
  "truthy v = (case v of None \<Rightarrow> False | Some t \<Rightarrow> t \<noteq> [])"

definition showInt :: "int \<Rightarrow> string" where
  "showInt i = (if i < 0 then CHR ''-'' # showNat (nat (- i)) else showNat (nat i))"

definition orUndefined :: "string option \<Rightarrow> string" where
  "orUndefined v = (case v of None \<Rightarrow> ''undefined'' | Some t \<Rightarrow> t)"

section \<open>The generation backend (config/openai.js)\<close>

definition DEFAULT_MODEL :: string where
  "DEFAULT_MODEL = ''gpt-4-turbo''"

definition chat :: "env \<Rightarrow> ChatRequest \<Rightarrow> world \<Rightarrow> (error + string) \<times> world" where
  "chat env req s =
     (let response = chatCompletion env (length (backendLog s)) req
      in (response, s\<lparr>backendLog := backendLog s @ [(req, response)]\<rparr>))"

definition summaryRequest :: "string \<Rightarrow> ChatRequest" where
  "summaryRequest contentText =
     \<lparr>model = DEFAULT_MODEL,
      systemPrompt = ''You are an assistant that summarizes email content. Extract the key topics, important information, and action items. Organize the summary by topic areas.'',
      userPrompt = ''Summarize the following email content:'' @ [nl, nl] @ contentText,
      max_tokens = 1000\<rparr>"

definition generateSummary :: "env \<Rightarrow> string \<Rightarrow> world \<Rightarrow> (error + string) \<times> world" where
  "generateSummary env contentText s =
     (case chat env (summaryRequest contentText) s of
        (Inl e, s') \<Rightarrow> (Inl e, logError ''Error generating summary with OpenAI:'' e s')
      | (Inr response, s') \<Rightarrow> (Inr (trim response), s'))"

definition categorizeRequest :: "PreparedEmail list \<Rightarrow> ChatRequest" where
  "categorizeRequest allEmails =
     (let emailSubjects =
            join [nl] (map (\<lambda>email. if truthy (prepared_subject email)
                                     then orUndefined (prepared_subject email)
                                     else ''No Subject'') allEmails)
      in \<lparr>model = DEFAULT_MODEL,
          systemPrompt = ''You are an assistant that categorizes email subjects into logical topic groups. Identify 3-7 key topics.'',
          userPrompt = ''Categorize these email subjects into logical topic groups:''
                       @ [nl, nl] @ emailSubjects,
          max_tokens = 500\<rparr>)"

definition categorizeEmails ::
  "env \<Rightarrow> PreparedEmail list \<Rightarrow> world \<Rightarrow> (error + string) \<times> world" where
  "categorizeEmails env allEmails s =
     (case chat env (categorizeRequest allEmails) s of
        (Inl e, s') \<Rightarrow> (Inl e, logError ''Error categorizing emails with OpenAI:'' e s')
      | (Inr response, s') \<Rightarrow> (Inr (trim response), s'))"

section \<open>The collections (Mongoose models and services/emailService.js)\<close>

definition findOne :: "Summary list \<Rightarrow> Date \<Rightarrow> Summary option" where
  "findOne coll startDate = find (\<lambda>doc. date doc = startDate) coll"

definition findById :: "Summary list \<Rightarrow> ObjectId \<Rightarrow> Summary option" where
  "findById coll summaryId = find (\<lambda>doc. summary_id doc = summaryId) coll"

text \<open>An identifier that no document of the collection has.\<close>

definition newObjectId :: "Summary list \<Rightarrow> ObjectId" where
  "newObjectId coll = Suc (foldr max (map summary_id coll) 0)"

text \<open>
  Saving a new summary: Mongoose validates first (a required string must not be
  empty), then the insert meets the unique index on \<open>date\<close> (summary.js, line 39).
\<close>

definition save :: "Summary \<Rightarrow> Summary list \<Rightarrow> error + Summary list" where
  "save doc coll =
     (if content doc = [] then Inl (ValidationError ''content'')
      else if date doc \<in> set (map date coll) then Inl (DuplicateKeyError ''date_1'')
      else Inr (coll @ [doc]))"

text \<open>
  Saving a loaded summary again writes it over the stored document of its id
  (\<open>saveExisting\<close>). The \<open>save\<close> of distributeSummary, line 193, is \<open>saveLoaded\<close>: it
  changes no validated path and not the date, so it is rejected only by the database,
  and the collection it leaves then holds the write or not.
\<close>

fun saveExisting :: "Summary \<Rightarrow> Summary list \<Rightarrow> Summary list" where
  "saveExisting doc [] = []"
| "saveExisting doc (d # ds) =
     (if summary_id d = summary_id doc then doc # ds else d # saveExisting doc ds)"

definition saveLoaded :: "env \<Rightarrow> Summary \<Rightarrow> Summary list \<Rightarrow> (error + unit) \<times> Summary list" where
  "saveLoaded env doc coll =
     (case saveExistingError env of
        None \<Rightarrow> (Inr (), saveExisting doc coll)
      | Some e \<Rightarrow> (Inl e, if saveExistingWritten env then saveExisting doc coll else coll))"

definition getEmailsForSummary :: "Date \<Rightarrow> Date \<Rightarrow> world \<Rightarrow> Email list" where
  "getEmailsForSummary startDate endDate s =
     sort_key receivedAt
       (filter (\<lambda>email. startDate \<le> receivedAt email \<and> receivedAt email \<le> endDate
                        \<and> isSummarized email = False)
               (emails s))"

text \<open>
  markEmailsAsSummarized. The schema has \<open>timestamps\<close>, so the update also sets
  \<open>updatedAt\<close> and every matched document counts as modified. A rejected update leaves
  the documents it had written marked.
\<close>

definition markEmailsAsSummarized ::
  "env \<Rightarrow> ObjectId list \<Rightarrow> world \<Rightarrow> (error + nat) \<times> world" where
  "markEmailsAsSummarized env ids s =
     (case updateManyError env of
        Some e \<Rightarrow>
          (Inl e,
           logError ''Error marking emails as summarized:'' e
             (s\<lparr>emails := map (\<lambda>email. if email_id email \<in> set ids
                                             \<and> updateManyWritten env (email_id email)
                                          then email\<lparr>isSummarized := True\<rparr> else email)
                                (emails s)\<rparr>))
      | None \<Rightarrow>
          (let modifiedCount =
                 length (filter (\<lambda>email. email_id email \<in> set ids) (emails s));
               s' = s\<lparr>emails := map (\<lambda>email. if email_id email \<in> set ids
                                                then email\<lparr>isSummarized := True\<rparr> else email)
                                      (emails s)\<rparr>
           in (Inr modifiedCount,
               logInfo (''Marked '' @ showNat modifiedCount @ '' emails as summarized'') s')))"

section \<open>The summary pipeline (services/summaryService.js)\<close>

definition prepareEmailsForSummary :: "Email list \<Rightarrow> PreparedEmail list" where
  "prepareEmailsForSummary es =
     map (\<lambda>email. \<lparr>prepared_id = email_id email,
                    prepared_subject = subject email,
                    prepared_from = fromAddr email,
                    prepared_receivedAt = receivedAt email,
                    prepared_content = body email,
                    prepared_snippet = snippet email\<rparr>) es"

definition batchContent :: "env \<Rightarrow> PreparedEmail list \<Rightarrow> string" where
  "batchContent env batch =
     concat (map (\<lambda>email.
                    ''From: '' @ prepared_from email @ [nl]
                    @ ''Subject: '' @ orUndefined (prepared_subject email) @ [nl]
                    @ ''Date: '' @ toISOString env (prepared_receivedAt email) @ [nl, nl]
                    @ prepared_content email @ [nl, nl] @ ''---'' @ [nl, nl])
                 batch)"

text \<open>The second loop of processBatches: a batch whose summary fails is logged and skipped.\<close>

fun summarize_loop ::
  "env \<Rightarrow> PreparedEmail list list \<Rightarrow> BatchSummary list \<Rightarrow> world
   \<Rightarrow> BatchSummary list \<times> world" where
  "summarize_loop env [] allSummaries s = (allSummaries, s)"
| "summarize_loop env (batch # rest) allSummaries s =
     (case generateSummary env (batchContent env batch) s of
        (Inl e, s') \<Rightarrow>
          summarize_loop env rest allSummaries
            (logError ''Error processing batch for summary:'' e s')
      | (Inr batchSummary, s') \<Rightarrow>
          summarize_loop env rest
            (allSummaries @ [\<lparr>batch_emails = batch, batch_summary = batchSummary\<rparr>]) s')"

definition processBatches ::
  "env \<Rightarrow> PreparedEmail list \<Rightarrow> int \<Rightarrow> world \<Rightarrow> (BatchSummary list \<times> world) option" where
  "processBatches env es batchSize s =
     (case batches_loop es batchSize 0 [] of
        None \<Rightarrow> None
      | Some batches \<Rightarrow> Some (summarize_loop env batches [] s))"

definition batchSeparator :: string where
  "batchSeparator = [nl, nl] @ ''===BATCH SEPARATOR==='' @ [nl, nl]"

definition mergePrompt :: "string \<Rightarrow> string" where
  "mergePrompt combinedContent =
     ''Please create a consolidated daily email summary from the following batch summaries:''
     @ [nl, nl] @ combinedContent"

definition generateCombinedSummary ::
  "env \<Rightarrow> BatchSummary list \<Rightarrow> PreparedEmail list \<Rightarrow> world
   \<Rightarrow> (error + string \<times> Category list) \<times> world" where
  "generateCombinedSummary env batchSummaries allEmails s =
     (let combinedContent = join batchSeparator (map batch_summary batchSummaries);
          (topicCategories, s1) =
            (case categorizeEmails env allEmails s of
               (Inl e, s') \<Rightarrow> ([], logError ''Error categorizing emails:'' e s')
             | (Inr categorization, s') \<Rightarrow> (parseCategories categorization, s'))
      in case generateSummary env (mergePrompt combinedContent) s1 of
           (Inl e, s2) \<Rightarrow> (Inl e, logError ''Error generating combined summary:'' e s2)
         | (Inr finalSummaryContent, s2) \<Rightarrow> (Inr (finalSummaryContent, topicCategories), s2))"

definition batchSizeOf :: "env \<Rightarrow> int" where
  "batchSizeOf env =
     (case EMAILS_BATCH_SIZE env of None \<Rightarrow> 50 | Some n \<Rightarrow> if n = 0 then 50 else n)"

text \<open>
  Lines 126 to 142 of createDailySummary: build the document, save it, mark the
  fetched messages. The collection met by the save is the one left by the other
  writers.
\<close>

definition persistSummary ::
  "env \<Rightarrow> Date \<Rightarrow> Email list \<Rightarrow> string \<Rightarrow> Category list \<Rightarrow> world
   \<Rightarrow> (error + Summary option) \<times> world" where
  "persistSummary env startDate fetched finalContent categories s3 =
     (let coll = concurrentWrites env (summaries s3);
          summary =
            \<lparr>summary_id = newObjectId coll,
             date = startDate,
             topicCategories = categories,
             content = finalContent,
             emailCount = length fetched,
             emailIds = map email_id fetched,
             isDistributed = False,
             distributedAt = None,
             distributionRecipients = []\<rparr>
      in case save summary coll of
           Inl e \<Rightarrow>
             (Inl e, logError ''Error creating daily summary:'' e (s3\<lparr>summaries := coll\<rparr>))
         | Inr coll' \<Rightarrow>
             (case markEmailsAsSummarized env (map email_id fetched)
                     (s3\<lparr>summaries := coll'\<rparr>) of
                (Inl e, s4) \<Rightarrow> (Inl e, logError ''Error creating daily summary:'' e s4)
              | (Inr n, s4) \<Rightarrow>
                  (Inr (Some summary),
                   logInfo (''Daily summary created for '' @ toDateString env startDate
                            @ '' with '' @ showNat (length fetched) @ '' emails'') s4)))"

text \<open>
  createDailySummary. \<open>Inr None\<close> is the return value \<open>null\<close>, \<open>Inl e\<close> the rejection
  with \<open>e\<close> after the outer handler has logged it, and \<open>None\<close> a run that never returns.
\<close>

definition createDailySummary ::
  "env \<Rightarrow> Date \<Rightarrow> world \<Rightarrow> ((error + Summary option) \<times> world) option" where
  "createDailySummary env dt s =
     (let startDate = setHoursStart env dt; endDate = setHoursEnd env dt
      in case findOne (summaries s) startDate of
           Some existingSummary \<Rightarrow>
             Some (Inr (Some existingSummary),
                   logInfo (''Summary already exists for '' @ toDateString env startDate) s)
         | None \<Rightarrow>
             (let fetched = getEmailsForSummary startDate endDate s
              in if length fetched = 0
                 then Some (Inr None,
                            logInfo (''No emails to summarize for '' @ toDateString env startDate) s)
                 else
                   (let s1 = logInfo (''Generating summary for '' @ showNat (length fetched)
                                      @ '' emails from '' @ toDateString env startDate) s;
                        preparedEmails = prepareEmailsForSummary fetched
                    in case processBatches env preparedEmails (batchSizeOf env) s1 of
                         None \<Rightarrow> None
                       | Some (batchSummaries, s2) \<Rightarrow>
                           (case generateCombinedSummary env batchSummaries preparedEmails s2 of
                              (Inl e, s3) \<Rightarrow>
                                Some (Inl e, logError ''Error creating daily summary:'' e s3)
                            | (Inr (finalContent, categories), s3) \<Rightarrow>
                                Some (persistSummary env startDate fetched finalContent
                                        categories s3)))))"

section \<open>Mail delivery (services/notificationService.js, the Resend version)\<close>

definition initializeEmailService :: "env \<Rightarrow> world \<Rightarrow> EmailService \<times> world" where
  "initializeEmailService env s =
     (case emailService s of
        Some service \<Rightarrow> (service, s)
      | None \<Rightarrow>
          (if truthy (RESEND_API_KEY env)
           then (case resendInitError env of
                   None \<Rightarrow>
                     (ResendClient,
                      (logInfo ''Resend email service initialized''
                         (s\<lparr>emailService := Some ResendClient\<rparr>))\<lparr>useMockTransport := False\<rparr>)
                 | Some e \<Rightarrow>
                     (MockTransport,
                      (logError ''Error initializing Resend:'' e s)
                        \<lparr>useMockTransport := True, emailService := Some MockTransport\<rparr>))
           else (MockTransport, s\<lparr>useMockTransport := True, emailService := Some MockTransport\<rparr>)))"

text \<open>\<open>html.replace(/<[^>]*>/g, '')\<close>.\<close>

function stripTags :: "string \<Rightarrow> string" where
  "stripTags [] = []"
| "stripTags (c # cs) =
     (if c = CHR ''<'' \<and> CHR ''>'' \<in> set cs
      then stripTags (tl (dropWhile (\<lambda>d. d \<noteq> CHR ''>'') cs))
      else c # stripTags cs)"
  by pat_completeness auto
termination
  by (relation "measure length")
     (auto simp: less_Suc_eq_le le_diff_conv intro: le_SucI length_dropWhile_le)

definition emailsSend :: "env \<Rightarrow> EmailService \<Rightarrow> nat \<Rightarrow> OutMail \<Rightarrow> error + SendResult" where
  "emailsSend env service n out =
     (case service of
        ResendClient \<Rightarrow> resendSend env n out
      | MockTransport \<Rightarrow>
          Inr \<lparr>result_id = Some (''mock-email-id-'' @ showInt (now env)),
               result_mock = True, result_error = None\<rparr>)"

fun errorMessage :: "error \<Rightarrow> string" where
  "errorMessage (Error m) = m"
| "errorMessage (ProviderError m) = m"
| "errorMessage (ValidationError m) = m"
| "errorMessage (DuplicateKeyError m) = m"
| "errorMessage (DatabaseError m) = m"

text \<open>
  The message handed to the mail service (sendEmail, lines 67 to 75 and 82 to 87): the
  default sender, and the text made from the HTML when no text is given.
\<close>

definition outgoing :: "env \<Rightarrow> Mail \<Rightarrow> OutMail" where
  "outgoing env mail =
     \<lparr>out_from = (if truthy (EMAIL_FROM env) then orUndefined (EMAIL_FROM env)
                   else ''Newsletter Summary <onboarding@resend.dev>''),
      out_to = mail_to mail,
      out_subject = mail_subject mail,
      out_html = mail_html mail,
      out_text = (if \<not> truthy (mail_text mail) \<and> truthy (mail_html mail)
                  then Some (stripTags (orUndefined (mail_html mail)))
                  else mail_text mail)\<rparr>"

text \<open>
  sendEmail. Outside production the handler answers a failed delivery with a mock
  success (lines 114 to 122); only in production is the error thrown again.
\<close>

definition sendEmail :: "env \<Rightarrow> Mail \<Rightarrow> world \<Rightarrow> (error + SendResult) \<times> world" where
  "sendEmail env mail s0 =
     (let s = s0\<lparr>sentMail := sentMail s0 @ [mail]\<rparr>;
          (service, s1) = initializeEmailService env s;
          attempt =
            (case emailsSend env service (length (sentMail s0)) (outgoing env mail) of
               Inl e \<Rightarrow> Inl e
             | Inr result \<Rightarrow>
                 if \<not> useMockTransport s1 \<and> result_error result \<noteq> None
                 then Inl (Error (if truthy (result_error result)
                                  then orUndefined (result_error result)
                                  else ''Unknown error from Resend''))
                 else Inr result)
      in case attempt of
           Inr result \<Rightarrow>
             (Inr result,
              logInfo ((if useMockTransport s1 then ''Mock email sent: '' else ''Email sent: '')
                       @ orUndefined (result_id result)) s1)
         | Inl e \<Rightarrow>
             (let s2 = logError ''Error sending email:'' e s1
              in if NODE_ENV env \<noteq> Some ''production''
                 then (Inr \<lparr>result_id = Some (''mock-fallback-id-'' @ showInt (now env)),
                            result_mock = True,
                            result_error = Some (errorMessage e)\<rparr>, s2)
                 else (Inl e, s2)))"

section \<open>Distribution (distributeSummary)\<close>

definition emailBodyOf :: "env \<Rightarrow> Summary \<Rightarrow> string" where
  "emailBodyOf env summary =
     ''<h1>Daily Email Summary - '' @ toDateString env (date summary) @ ''</h1>''
     @ ''<p><strong>Total Emails Processed:</strong> '' @ showNat (emailCount summary) @ ''</p>''
     @ (if length (topicCategories summary) > 0
        then ''<h2>Topics Overview</h2><ul>''
             @ concat (map (\<lambda>category. ''<li>'' @ description category @ ''</li>'')
                           (topicCategories summary))
             @ ''</ul>''
        else [])
     @ ''<h2>Summary</h2>''
     @ ''<div>'' @ replaceNewlines (content summary) @ ''</div>''"

text \<open>The argument of the sendEmail call (lines 183 to 187).\<close>

definition distributionMail :: "env \<Rightarrow> Summary \<Rightarrow> string \<Rightarrow> Mail" where
  "distributionMail env summary recipientEmail =
     \<lparr>mail_to = recipientEmail,
      mail_subject = ''Email Summary for '' @ toDateString env (date summary),
      mail_html = Some (emailBodyOf env summary),
      mail_text = None\<rparr>"

text \<open>
  distributeSummary. Every error, the two it throws itself, the one sendEmail may
  reject with and the one the final \<open>save\<close> may reject with, passes the handler that
  logs it and throws it again.
\<close>

definition distributeSummary ::
  "env \<Rightarrow> ObjectId \<Rightarrow> world \<Rightarrow> (error + Summary) \<times> world" where
  "distributeSummary env summaryId s =
     (let failed = (\<lambda>e s'. (Inl e, logError (''Error distributing summary ID ''
                                              @ showNat summaryId @ '':'') e s'))
      in case findById (summaries s) summaryId of
           None \<Rightarrow> failed (Error (''Summary with ID '' @ showNat summaryId @ '' not found'')) s
         | Some summary \<Rightarrow>
             if isDistributed summary
             then (Inr summary,
                   logInfo (''Summary ID '' @ showNat summaryId @ '' already distributed on ''
                            @ (case distributedAt summary of None \<Rightarrow> ''undefined''
                               | Some d \<Rightarrow> dateToString env d)) s)
             else if \<not> truthy (SUMMARY_RECIPIENT_EMAIL env)
             then failed (Error ''Recipient email not configured'') s
             else
               (let recipientEmail = orUndefined (SUMMARY_RECIPIENT_EMAIL env)
                in case sendEmail env (distributionMail env summary recipientEmail) s of
                     (Inl e, s1) \<Rightarrow> failed e s1
                   | (Inr sent, s1) \<Rightarrow>
                       (let summary' = summary\<lparr>isDistributed := True,
                                               distributedAt := Some (now env),
                                               distributionRecipients := [recipientEmail]\<rparr>
                        in case saveLoaded env summary' (summaries s1) of
                             (Inl e, coll) \<Rightarrow> failed e (s1\<lparr>summaries := coll\<rparr>)
                           | (Inr u, coll) \<Rightarrow>
                               (Inr summary',
                                logInfo (''Summary ID '' @ showNat summaryId
                                         @ '' distributed to '' @ recipientEmail)
                                  (s1\<lparr>summaries := coll\<rparr>)))))"

section \<open>Closed forms used in the statements\<close>

text \<open>
  \<open>sameStores\<close>: two states agree on the collections, the mail module and the mails sent.
  \<open>batchResponse\<close>: the backend's answer to the request for batch \<open>i\<close> when \<open>n0\<close>
  requests were made before the run. \<open>batchResults\<close> and \<open>batchCalls\<close>: what the
  summarize loop returns and what it asks, batch by batch, the first request being
  number \<open>n\<close>. \<open>mergeRequest\<close>: the request of the merge step after these batches.
  \<open>markAll\<close>: the effect of \<open>updateMany\<close> on the messages.
\<close>

definition sameStores :: "world \<Rightarrow> world \<Rightarrow> bool" where
  "sameStores s s' =
     (summaries s' = summaries s \<and> emails s' = emails s \<and> emailService s' = emailService s
      \<and> useMockTransport s' = useMockTransport s \<and> sentMail s' = sentMail s)"

definition batchResponse ::
  "env \<Rightarrow> nat \<Rightarrow> PreparedEmail list list \<Rightarrow> nat \<Rightarrow> error + string" where
  "batchResponse env n0 batches i =
     chatCompletion env (n0 + i) (summaryRequest (batchContent env (batches ! i)))"

fun batchResults :: "env \<Rightarrow> nat \<Rightarrow> PreparedEmail list list \<Rightarrow> BatchSummary list" where
  "batchResults env n [] = []"
| "batchResults env n (batch # rest) =
     (case chatCompletion env n (summaryRequest (batchContent env batch)) of
        Inl e \<Rightarrow> batchResults env (Suc n) rest
      | Inr response \<Rightarrow>
          \<lparr>batch_emails = batch, batch_summary = trim response\<rparr> # batchResults env (Suc n) rest)"

fun batchCalls ::
  "env \<Rightarrow> nat \<Rightarrow> PreparedEmail list list \<Rightarrow> (ChatRequest \<times> (error + string)) list" where
  "batchCalls env n [] = []"
| "batchCalls env n (batch # rest) =
     (summaryRequest (batchContent env batch),
      chatCompletion env n (summaryRequest (batchContent env batch)))
     # batchCalls env (Suc n) rest"

definition mergeRequest :: "env \<Rightarrow> nat \<Rightarrow> PreparedEmail list list \<Rightarrow> ChatRequest" where
  "mergeRequest env n0 batches =
     summaryRequest (mergePrompt (join batchSeparator
       (map batch_summary (batchResults env n0 batches))))"

definition markAll :: "ObjectId list \<Rightarrow> Email list \<Rightarrow> Email list" where
  "markAll ids es =
     map (\<lambda>email. if email_id email \<in> set ids then email\<lparr>isSummarized := True\<rparr> else email) es"

text \<open>
  \<open>markWritten\<close>: the messages after an \<open>updateMany\<close> that was rejected when only the
  documents picked by \<open>written\<close> had been updated.
\<close>

definition markWritten :: "(ObjectId \<Rightarrow> bool) \<Rightarrow> ObjectId list \<Rightarrow> Email list \<Rightarrow> Email list" where
  "markWritten written ids es =
     map (\<lambda>email. if email_id email \<in> set ids \<and> written (email_id email)
                  then email\<lparr>isSummarized := True\<rparr> else email) es"

text \<open>
  The words of the specification about lines: a line is blank when it holds nothing
  but white space, and a trimmed text neither starts nor ends with white space.
\<close>

definition blank :: "string \<Rightarrow> bool" where
  "blank s = list_all isWhiteSpace s"

definition noOuterWhiteSpace :: "string \<Rightarrow> bool" where
  "noOuterWhiteSpace t =
     (case t of [] \<Rightarrow> True | c # cs \<Rightarrow> \<not> isWhiteSpace c \<and> \<not> isWhiteSpace (last t))"

section \<open>An example day\<close>

text \<open>
  Five unsummarized messages received on day 0 of a host in UTC, a batch size of two,
  an empty summaries collection, and services that all succeed. The variants change
  one service each.
\<close>

definition exampleEmail :: "nat \<Rightarrow> Date \<Rightarrow> Email" where
  "exampleEmail i t =
     \<lparr>email_id = i, messageId = ''msg-'' @ showNat i, fromAddr = ''sender@example.com'',
      subject = Some ''Weekly news'', snippet = None, body = ''Hello'',
      receivedAt = t, isSummarized = False\<rparr>"

definition world0 :: world where
  "world0 =
     \<lparr>summaries = [],
      emails = [exampleEmail 1 1000, exampleEmail 2 2000, exampleEmail 3 3000,
                exampleEmail 4 4000, exampleEmail 5 5000],
      emailService = None, useMockTransport = False,
      backendLog = [], sentMail = [], logged = []\<rparr>"

definition env0 :: env where
  "env0 =
     \<lparr>setHoursStart = (\<lambda>d. d - d mod 86400000),
      setHoursEnd = (\<lambda>d. d - d mod 86400000 + 86399999),
      toDateString = (\<lambda>d. ''Thu Jan 01 1970''),
      toISOString = (\<lambda>d. ''1970-01-01T00:00:01.000Z''),
      dateToString = (\<lambda>d. ''Thu Jan 01 1970 00:00:00 GMT+0000''),
      now = 90000000,
      EMAILS_BATCH_SIZE = Some 2,
      SUMMARY_RECIPIENT_EMAIL = Some ''reader@example.com'',
      NODE_ENV = Some ''production'',
      RESEND_API_KEY = Some ''re_123'',
      EMAIL_FROM = None,
      chatCompletion = (\<lambda>n req. Inr ''Summary text''),
      updateManyError = None,
      updateManyWritten = (\<lambda>i. False),
      saveExistingError = None,
      saveExistingWritten = False,
      concurrentWrites = (\<lambda>coll. coll),
      resendInitError = None,
      resendSend = (\<lambda>n out. Inr \<lparr>result_id = Some ''re-1'', result_mock = False,
                                    result_error = None\<rparr>)\<rparr>"

definition envOneFails :: env where
  "envOneFails =
     env0\<lparr>chatCompletion :=
            (\<lambda>n req. if n = 1 then Inl (ProviderError ''503'') else Inr ''Summary text'')\<rparr>"

definition envAllFail :: env where
  "envAllFail =
     env0\<lparr>chatCompletion :=
            (\<lambda>n req. if n < 3 then Inl (ProviderError ''503'') else Inr ''Summary text'')\<rparr>"

definition envMergeFails :: env where
  "envMergeFails =
     env0\<lparr>chatCompletion :=
            (\<lambda>n req. if n = 4 then Inl (ProviderError ''503'') else Inr ''Summary text'')\<rparr>"

definition otherDigest :: Summary where
  "otherDigest =
     \<lparr>summary_id = 7, date = 0, topicCategories = [], content = ''Written by another run'',
      emailCount = 5, emailIds = [1, 2, 3, 4, 5], isDistributed = False,
      distributedAt = None, distributionRecipients = []\<rparr>"

definition envDuplicate :: env where
  "envDuplicate = env0\<lparr>concurrentWrites := (\<lambda>coll. coll @ [otherDigest])\<rparr>"

definition envMarkFails :: env where
  "envMarkFails = env0\<lparr>updateManyError := Some (DatabaseError ''connection lost'')\<rparr>"

definition envMarkFailsPartway :: env where
  "envMarkFailsPartway = envMarkFails\<lparr>updateManyWritten := (\<lambda>i. i \<le> 2)\<rparr>"

definition storedDigest :: Summary where
  "storedDigest =
     \<lparr>summary_id = 1, date = 0,
      topicCategories = [\<lparr>name = ''Work'', description = ''Work: meetings and deadlines''\<rparr>],
      content = ''Summary text'', emailCount = 5, emailIds = [1, 2, 3, 4, 5],
      isDistributed = False, distributedAt = None, distributionRecipients = []\<rparr>"

definition worldWithDigest :: world where
  "worldWithDigest = world0\<lparr>summaries := [storedDigest]\<rparr>"

definition failingResend :: "nat \<Rightarrow> OutMail \<Rightarrow> error + SendResult" where
  "failingResend n out = Inl (Error ''Resend is unreachable'')"

definition envProductionMailFails :: env where
  "envProductionMailFails = env0\<lparr>resendSend := failingResend\<rparr>"

definition envDevelopmentMailFails :: env where
  "envDevelopmentMailFails =
     env0\<lparr>NODE_ENV := Some ''development'', resendSend := failingResend\<rparr>"

definition envDevelopmentSaveFails :: env where
  "envDevelopmentSaveFails =
     envDevelopmentMailFails\<lparr>saveExistingError := Some (DatabaseError ''connection lost'')\<rparr>"

definition envSaveFails :: env where
  "envSaveFails = env0\<lparr>saveExistingError := Some (DatabaseError ''connection lost'')\<rparr>"

section \<open>Facts about strings\<close>

lemma split_not_Nil: "split sep s \<noteq> []"
  by (induction s) (auto split: list.splits)

lemma hd_split: "hd (split sep s) = takeWhile (\<lambda>c. c \<noteq> sep) s"
proof (induction s)
  case Nil
  show ?case by simp
next
  case (Cons c cs)
  then show ?case using split_not_Nil [of sep cs]
    by (auto split: list.splits)
qed

lemma join_split: "join [sep] (split sep s) = s"
proof (induction s)
  case Nil
  show ?case by simp
next
  case (Cons c cs)
  obtain piece pieces where sp: "split sep cs = piece # pieces"
    using split_not_Nil [of sep cs] by (cases "split sep cs") auto
  with Cons show ?case by (cases pieces) auto
qed

lemma split_no_separator: "list_all (\<lambda>piece. sep \<notin> set piece) (split sep s)"
  by (induction s) (auto split: list.splits)

lemma trim_decompose:
  "\<exists>a b. s = a @ trim s @ b \<and> blank a \<and> blank b"
proof -
  let ?d = "dropWhile isWhiteSpace s"
  have 1: "s = takeWhile isWhiteSpace s @ ?d" by simp
  have 2: "?d = trim s @ rev (takeWhile isWhiteSpace (rev ?d))"
    unfolding trim_def rev_append [symmetric]
    by (simp only: takeWhile_dropWhile_id rev_rev_ident)
  have a: "blank (takeWhile isWhiteSpace s)"
    by (simp add: blank_def list_all_iff) (meson set_takeWhileD)
  have b: "blank (rev (takeWhile isWhiteSpace (rev ?d)))"
    by (simp add: blank_def list_all_iff) (meson set_takeWhileD)
  from 1 2 have "s = takeWhile isWhiteSpace s @ trim s @ rev (takeWhile isWhiteSpace (rev ?d))"
    by metis
  with a b show ?thesis by blast
qed

lemma trim_noOuterWhiteSpace: "noOuterWhiteSpace (trim s)"
proof (cases "trim s")
  case Nil
  then show ?thesis by (simp add: noOuterWhiteSpace_def)
next
  case (Cons c cs)
  let ?d = "dropWhile isWhiteSpace s"
  let ?r = "dropWhile isWhiteSpace (rev ?d)"
  from Cons have rne: "?r \<noteq> []" by (auto simp: trim_def)
  then have l: "\<not> isWhiteSpace (hd ?r)" by (rule hd_dropWhile)
  have "last (trim s) = hd ?r" using rne by (simp add: trim_def last_rev)
  with l have lst: "\<not> isWhiteSpace (last (trim s))" by simp
  have dne: "?d \<noteq> []"
  proof
    assume "?d = []"
    with rne show False by simp
  qed
  then have h: "\<not> isWhiteSpace (hd ?d)" by (rule hd_dropWhile)
  have "?d = trim s @ rev (takeWhile isWhiteSpace (rev ?d))"
    unfolding trim_def rev_append [symmetric]
    by (simp only: takeWhile_dropWhile_id rev_rev_ident)
  with Cons have "hd ?d = c" by (metis append_Cons list.sel(1))
  with h have "\<not> isWhiteSpace c" by simp
  with lst Cons show ?thesis by (simp add: noOuterWhiteSpace_def)
qed

lemma trim_Nil_iff: "trim s = [] \<longleftrightarrow> blank s"
proof
  assume "trim s = []"
  with trim_decompose [of s] show "blank s" by (auto simp: blank_def)
next
  assume "blank s"
  then have "dropWhile isWhiteSpace s = []"
    unfolding blank_def by (induction s) auto
  then show "trim s = []" by (simp only: trim_def dropWhile.simps rev.simps)
qed

lemma before_colon:
  "\<exists>p. (if sep \<in> set line then \<exists>rest. line = p @ sep # rest \<and> sep \<notin> set p else p = line)
       \<and> takeWhile (\<lambda>c. c \<noteq> sep) line = p"
proof (cases "sep \<in> set line")
  case True
  then have "dropWhile (\<lambda>c. c \<noteq> sep) line \<noteq> []" by (auto simp: dropWhile_eq_Nil_conv)
  then obtain x rest where d: "dropWhile (\<lambda>c. c \<noteq> sep) line = x # rest"
    by (cases "dropWhile (\<lambda>c. c \<noteq> sep) line") auto
  with hd_dropWhile [of "\<lambda>c. c \<noteq> sep" line] have "x = sep" by auto
  with d have "line = takeWhile (\<lambda>c. c \<noteq> sep) line @ sep # rest"
    by (metis takeWhile_dropWhile_id)
  moreover have "sep \<notin> set (takeWhile (\<lambda>c. c \<noteq> sep) line)"
    by (auto dest: set_takeWhileD)
  ultimately show ?thesis using True by auto
next
  case False
  then have tw: "takeWhile (\<lambda>c. c \<noteq> sep) line = line"
    unfolding takeWhile_eq_all_conv by blast
  show ?thesis unfolding tw using False by simp
qed

section \<open>Facts about the partition\<close>

lemma chunks_Nil [simp]: "chunks n [] = []"
  by (simp add: chunks.simps)

lemma chunks_step:
  "0 < n \<Longrightarrow> xs \<noteq> [] \<Longrightarrow> chunks n xs = take n xs # chunks n (drop n xs)"
  by (subst chunks.simps) simp

lemma chunks_eq_Nil: "0 < n \<Longrightarrow> chunks n xs = [] \<longleftrightarrow> xs = []"
  by (cases "xs = []") (simp_all add: chunks_step)

lemma slice_inside:
  assumes "0 \<le> i" "i < int (length xs)" "0 < b"
  shows "slice xs i (i + b) = take (nat b) (drop (nat i) xs)"
proof -
  have "take (nat (min (i + b) (int (length xs)) - i)) (drop (nat i) xs)
        = take (nat b) (drop (nat i) xs)"
  proof (cases "i + b \<le> int (length xs)")
    case True
    then show ?thesis by (simp add: min_def)
  next
    case False
    then have "length (drop (nat i) xs) \<le> nat (int (length xs) - i)"
      and "length (drop (nat i) xs) \<le> nat b"
      using assms by auto
    with False show ?thesis by (simp add: min_def)
  qed
  then show ?thesis using assms by (simp add: slice_def Let_def min_def)
qed

lemma batches_loop_chunks:
  assumes "0 < b" "0 \<le> i"
  shows "batches_loop xs b i acc = Some (acc @ chunks (nat b) (drop (nat i) xs))"
  using assms(2)
proof (induction "length xs - nat i" arbitrary: i acc rule: less_induct)
  case less
  show ?case
  proof (cases "i < int (length xs)")
    case False
    then have "drop (nat i) xs = []" using less.prems by simp
    with False show ?thesis by (subst batches_loop.simps) simp
  next
    case True
    have m: "length xs - nat (i + b) < length xs - nat i"
      using True assms(1) less.prems by linarith
    have ne: "drop (nat i) xs \<noteq> []" using True less.prems by simp
    have nb: "nat (i + b) = nat b + nat i"
      using assms(1) less.prems by (simp add: nat_add_distrib)
    have dd: "drop (nat b + nat i) xs = drop (nat (i + b)) xs"
      by (simp only: nb)
    have "batches_loop xs b i acc = batches_loop xs b (i + b) (acc @ [slice xs i (i + b)])"
      using True by (subst batches_loop.simps) simp
    also have "\<dots> = Some ((acc @ [slice xs i (i + b)]) @ chunks (nat b) (drop (nat (i + b)) xs))"
      using less.hyps [OF m] assms(1) less.prems by simp
    also have "\<dots> = Some (acc @ chunks (nat b) (drop (nat i) xs))"
      using chunks_step [of "nat b" "drop (nat i) xs"] ne assms(1) True less.prems
      by (simp add: slice_inside dd)
    finally show ?thesis .
  qed
qed

lemma batches_loop_start:
  "0 < b \<Longrightarrow> batches_loop xs b 0 [] = Some (chunks (nat b) xs)"
  using batches_loop_chunks [of b 0 xs "[]"] by simp

text \<open>A batch size that is not positive: the loop over a non-empty list never returns.\<close>

lemma batches_loop_returns:
  assumes "batches_loop xs b i acc = Some r"
  shows "\<not> (b \<le> 0 \<and> i < int (length xs))"
proof (rule batches_loop.raw_induct
         [where P = "\<lambda>xs b i acc r. \<not> (b \<le> 0 \<and> i < int (length xs))", OF _ assms])
  fix loop :: "'a list \<Rightarrow> int \<Rightarrow> int \<Rightarrow> 'a list list \<Rightarrow> 'a list list option"
    and emails batchSize i batches r
  assume ih: "\<And>emails batchSize i batches y.
                loop emails batchSize i batches = Some y
                \<Longrightarrow> \<not> (batchSize \<le> 0 \<and> i < int (length emails))"
    and step: "(if i < int (length emails)
                then loop emails batchSize (i + batchSize)
                       (batches @ [slice emails i (i + batchSize)])
                else Some batches) = Some r"
  show "\<not> (batchSize \<le> 0 \<and> i < int (length emails))"
  proof
    assume a: "batchSize \<le> 0 \<and> i < int (length emails)"
    with step have "loop emails batchSize (i + batchSize)
                      (batches @ [slice emails i (i + batchSize)]) = Some r"
      by simp
    from ih [OF this] a show False by simp
  qed
qed

lemma batches_loop_diverges:
  "b \<le> 0 \<Longrightarrow> xs \<noteq> [] \<Longrightarrow> batches_loop xs b 0 [] = None"
  using batches_loop_returns [of xs b 0 "[]"] by (cases "batches_loop xs b 0 []") auto

lemma concat_chunks: "0 < n \<Longrightarrow> concat (chunks n xs) = xs"
proof (induction n xs rule: chunks.induct)
  case (1 n xs)
  then show ?case by (cases "xs = []") (simp_all add: chunks_step)
qed

lemma ceil_step:
  fixes m n :: nat
  assumes "0 < n" "0 < m"
  shows "(m + n - 1) div n = Suc ((m - n + n - 1) div n)"
proof -
  have a: "m + n - 1 = (m - 1) + n" using assms by simp
  have "((m - 1) + n) div n = (m - 1) div n + 1"
    using assms(1) by (intro div_add_self2) simp
  then have b: "(m + n - 1) div n = Suc ((m - 1) div n)"
    by (simp only: a Suc_eq_plus1)
  show ?thesis
  proof (cases "n \<le> m")
    case True
    then show ?thesis using b by simp
  next
    case False
    then have "(m - 1) div n = 0" "(m - n + n - 1) div n = 0" using assms by simp_all
    then show ?thesis using b by simp
  qed
qed

lemma length_chunks: "0 < n \<Longrightarrow> length (chunks n xs) = (length xs + n - 1) div n"
proof (induction n xs rule: chunks.induct)
  case (1 n xs)
  show ?case
  proof (cases "xs = []")
    case True
    then show ?thesis using 1(2) by simp
  next
    case False
    then have "length (chunks n (drop n xs)) = (length xs - n + n - 1) div n"
      using 1 by simp
    then show ?thesis
      using False 1(2) ceil_step [of n "length xs"] by (simp add: chunks_step)
  qed
qed

lemma nth_chunks:
  "0 < n \<Longrightarrow> i < length (chunks n xs) \<Longrightarrow> chunks n xs ! i = take n (drop (i * n) xs)"
proof (induction n xs arbitrary: i rule: chunks.induct)
  case (1 n xs)
  show ?case
  proof (cases "xs = []")
    case True
    then show ?thesis using 1(3) by simp
  next
    case False
    show ?thesis
    proof (cases i)
      case 0
      then show ?thesis using False 1(2) by (simp add: chunks_step)
    next
      case (Suc j)
      then have "j < length (chunks n (drop n xs))"
        using 1(3) False 1(2) by (simp add: chunks_step)
      then have "chunks n (drop n xs) ! j = take n (drop (j * n) (drop n xs))"
        using 1(1) False 1(2) by simp
      then show ?thesis using Suc False 1(2) by (simp add: chunks_step add.commute)
    qed
  qed
qed

lemma chunks_inner_length:
  "0 < n \<Longrightarrow> Suc i < length (chunks n xs) \<Longrightarrow> length (chunks n xs ! i) = n"
proof (induction n xs arbitrary: i rule: chunks.induct)
  case (1 n xs)
  have ne: "xs \<noteq> []" using 1(3) by auto
  show ?case
  proof (cases i)
    case 0
    then have "chunks n (drop n xs) \<noteq> []"
      using 1(3) ne 1(2) by (auto simp: chunks_step)
    then have "drop n xs \<noteq> []" by auto
    then show ?thesis using 0 ne 1(2) by (simp add: chunks_step)
  next
    case (Suc j)
    then have "Suc j < length (chunks n (drop n xs))"
      using 1(3) ne 1(2) by (simp add: chunks_step)
    then have "length (chunks n (drop n xs) ! j) = n"
      using 1(1) ne 1(2) by simp
    then show ?thesis using Suc ne 1(2) by (simp add: chunks_step)
  qed
qed

lemma chunks_last_length:
  "0 < n \<Longrightarrow> Suc i = length (chunks n xs) \<Longrightarrow>
     length (chunks n xs ! i) = length xs - i * n \<and> 0 < length (chunks n xs ! i)
     \<and> length (chunks n xs ! i) \<le> n"
proof (induction n xs arbitrary: i rule: chunks.induct)
  case (1 n xs)
  have ne: "xs \<noteq> []" using 1(3) by auto
  show ?case
  proof (cases i)
    case 0
    then have "chunks n (drop n xs) = []"
      using 1(3) ne 1(2) by (simp add: chunks_step)
    then have "drop n xs = []" using 1(2) by (simp add: chunks_eq_Nil)
    then show ?thesis using 0 ne 1(2) by (simp add: chunks_step)
  next
    case (Suc j)
    then have sj: "Suc j = length (chunks n (drop n xs))"
      using 1(3) ne 1(2) by (simp add: chunks_step)
    have ih: "length (chunks n (drop n xs) ! j) = length (drop n xs) - j * n
        \<and> 0 < length (chunks n (drop n xs) ! j) \<and> length (chunks n (drop n xs) ! j) \<le> n"
    proof -
      have "\<not> (n = 0 \<or> xs = [])" using ne 1(2) by simp
      from 1(1) [OF this 1(2) sj] show ?thesis .
    qed
    have c: "chunks n xs ! i = chunks n (drop n xs) ! j"
      using Suc ne 1(2) by (simp add: chunks_step)
    have e: "length xs - i * n = length (drop n xs) - j * n"
      using Suc by simp
    show ?thesis unfolding c e using ih .
  qed
qed

section \<open>Facts about the generation phase\<close>

lemma sameStores_refl [simp]: "sameStores s s"
  by (simp add: sameStores_def)

lemma sameStores_trans: "sameStores s s' \<Longrightarrow> sameStores s' s'' \<Longrightarrow> sameStores s s''"
  by (simp add: sameStores_def)

lemma sameStores_log [simp]:
  "sameStores s (logInfo m s')  = sameStores s s'"
  "sameStores s (logError m e s') = sameStores s s'"
  "sameStores (logInfo m s) s' = sameStores s s'"
  "sameStores (logError m e s) s' = sameStores s s'"
  by (simp_all add: sameStores_def logInfo_def logError_def)

lemma backendLog_log [simp]:
  "backendLog (logInfo m s) = backendLog s"
  "backendLog (logError m e s) = backendLog s"
  by (simp_all add: logInfo_def logError_def)

lemma generateSummary_unfold:
  "generateSummary env c s =
     (case chatCompletion env (length (backendLog s)) (summaryRequest c) of
        Inl e \<Rightarrow> (Inl e, logError ''Error generating summary with OpenAI:'' e
                    (s\<lparr>backendLog := backendLog s @ [(summaryRequest c, Inl e)]\<rparr>))
      | Inr t \<Rightarrow> (Inr (trim t), s\<lparr>backendLog := backendLog s @ [(summaryRequest c, Inr t)]\<rparr>))"
  by (simp add: generateSummary_def chat_def Let_def split: sum.splits)

lemma generateSummary_run:
  assumes "generateSummary env c s = (r, s')"
  shows "r = map_sum (\<lambda>e. e) trim (chatCompletion env (length (backendLog s)) (summaryRequest c))"
    and "backendLog s' = backendLog s
           @ [(summaryRequest c, chatCompletion env (length (backendLog s)) (summaryRequest c))]"
    and "sameStores s s'"
proof -
  have "r = map_sum (\<lambda>e. e) trim (chatCompletion env (length (backendLog s)) (summaryRequest c))
    \<and> backendLog s' = backendLog s
           @ [(summaryRequest c, chatCompletion env (length (backendLog s)) (summaryRequest c))]
    \<and> sameStores s s'"
  proof (cases "chatCompletion env (length (backendLog s)) (summaryRequest c)")
    case (Inl e)
    from assms have "(Inl e, logError ''Error generating summary with OpenAI:'' e
                  (s\<lparr>backendLog := backendLog s @ [(summaryRequest c, Inl e)]\<rparr>)) = (r, s')"
      by (simp only: generateSummary_unfold Inl sum.case)
    then have "r = Inl e"
      and "s' = logError ''Error generating summary with OpenAI:'' e
                  (s\<lparr>backendLog := backendLog s @ [(summaryRequest c, Inl e)]\<rparr>)"
      by blast+
    then show ?thesis unfolding Inl by (simp add: sameStores_def logError_def)
  next
    case (Inr t)
    from assms have "(Inr (trim t), s\<lparr>backendLog := backendLog s @ [(summaryRequest c, Inr t)]\<rparr>) = (r, s')"
      by (simp only: generateSummary_unfold Inr sum.case)
    then have "r = Inr (trim t)"
      and "s' = s\<lparr>backendLog := backendLog s @ [(summaryRequest c, Inr t)]\<rparr>"
      by blast+
    then show ?thesis unfolding Inr by (simp add: sameStores_def)
  qed
  then show "r = map_sum (\<lambda>e. e) trim (chatCompletion env (length (backendLog s)) (summaryRequest c))"
    and "backendLog s' = backendLog s
           @ [(summaryRequest c, chatCompletion env (length (backendLog s)) (summaryRequest c))]"
    and "sameStores s s'"
    by blast+
qed

lemma categorizeEmails_unfold:
  "categorizeEmails env es s =
     (case chatCompletion env (length (backendLog s)) (categorizeRequest es) of
        Inl e \<Rightarrow> (Inl e, logError ''Error categorizing emails with OpenAI:'' e
                    (s\<lparr>backendLog := backendLog s @ [(categorizeRequest es, Inl e)]\<rparr>))
      | Inr t \<Rightarrow> (Inr (trim t), s\<lparr>backendLog := backendLog s @ [(categorizeRequest es, Inr t)]\<rparr>))"
  by (simp add: categorizeEmails_def chat_def Let_def split: sum.splits)

lemma categorizeEmails_run:
  assumes "categorizeEmails env es s = (r, s')"
  shows "r = map_sum (\<lambda>e. e) trim (chatCompletion env (length (backendLog s)) (categorizeRequest es))"
    and "backendLog s' = backendLog s
           @ [(categorizeRequest es, chatCompletion env (length (backendLog s)) (categorizeRequest es))]"
    and "sameStores s s'"
proof -
  have "r = map_sum (\<lambda>e. e) trim (chatCompletion env (length (backendLog s)) (categorizeRequest es))
    \<and> backendLog s' = backendLog s
           @ [(categorizeRequest es, chatCompletion env (length (backendLog s)) (categorizeRequest es))]
    \<and> sameStores s s'"
  proof (cases "chatCompletion env (length (backendLog s)) (categorizeRequest es)")
    case (Inl e)
    from assms have "(Inl e, logError ''Error categorizing emails with OpenAI:'' e
                  (s\<lparr>backendLog := backendLog s @ [(categorizeRequest es, Inl e)]\<rparr>)) = (r, s')"
      by (simp only: categorizeEmails_unfold Inl sum.case)
    then have "r = Inl e"
      and "s' = logError ''Error categorizing emails with OpenAI:'' e
                  (s\<lparr>backendLog := backendLog s @ [(categorizeRequest es, Inl e)]\<rparr>)"
      by blast+
    then show ?thesis unfolding Inl by (simp add: sameStores_def logError_def)
  next
    case (Inr t)
    from assms have "(Inr (trim t), s\<lparr>backendLog := backendLog s @ [(categorizeRequest es, Inr t)]\<rparr>) = (r, s')"
      by (simp only: categorizeEmails_unfold Inr sum.case)
    then have "r = Inr (trim t)"
      and "s' = s\<lparr>backendLog := backendLog s @ [(categorizeRequest es, Inr t)]\<rparr>"
      by blast+
    then show ?thesis unfolding Inr by (simp add: sameStores_def)
  qed
  then show "r = map_sum (\<lambda>e. e) trim (chatCompletion env (length (backendLog s)) (categorizeRequest es))"
    and "backendLog s' = backendLog s
           @ [(categorizeRequest es, chatCompletion env (length (backendLog s)) (categorizeRequest es))]"
    and "sameStores s s'"
    by blast+
qed

lemma summarize_loop_run:
  "summarize_loop env batches acc s = (out, s') \<Longrightarrow>
     out = acc @ batchResults env (length (backendLog s)) batches
   \<and> backendLog s' = backendLog s @ batchCalls env (length (backendLog s)) batches
   \<and> sameStores s s'"
proof (induction batches arbitrary: acc s)
  case Nil
  then show ?case by simp
next
  case (Cons batch rest)
  obtain r s1 where g: "generateSummary env (batchContent env batch) s = (r, s1)"
    by fastforce
  note g1 = generateSummary_run [OF g]
  show ?case
  proof (cases "chatCompletion env (length (backendLog s)) (summaryRequest (batchContent env batch))")
    case (Inl e)
    with g1(1) have r: "r = Inl e" by simp
    with Cons.prems g have
      "summarize_loop env rest acc (logError ''Error processing batch for summary:'' e s1) = (out, s')"
      by simp
    from Cons.IH [OF this] g1(2,3) Inl show ?thesis
      by (auto intro: sameStores_trans)
  next
    case (Inr t)
    with g1(1) have r: "r = Inr (trim t)" by simp
    with Cons.prems g have
      "summarize_loop env rest (acc @ [\<lparr>batch_emails = batch, batch_summary = trim t\<rparr>]) s1 = (out, s')"
      by simp
    from Cons.IH [OF this] g1(2,3) Inr show ?thesis
      by (auto intro: sameStores_trans)
  qed
qed

lemma length_batchCalls [simp]: "length (batchCalls env n batches) = length batches"
  by (induction batches arbitrary: n) simp_all

lemma generateCombinedSummary_run:
  assumes "generateCombinedSummary env bsums es s = (r, s')"
  defines "n \<equiv> length (backendLog s)"
  defines "mreq \<equiv> summaryRequest (mergePrompt (join batchSeparator (map batch_summary bsums)))"
  shows "backendLog s' = backendLog s
           @ [(categorizeRequest es, chatCompletion env n (categorizeRequest es)),
              (mreq, chatCompletion env (Suc n) mreq)]"
    and "sameStores s s'"
    and "r = (case chatCompletion env (Suc n) mreq of
                Inl e \<Rightarrow> Inl e
              | Inr t \<Rightarrow> Inr (trim t,
                   case chatCompletion env n (categorizeRequest es) of
                     Inl e \<Rightarrow> [] | Inr c \<Rightarrow> parseCategories (trim c)))"
proof -
  obtain rc sc where c: "categorizeEmails env es s = (rc, sc)" by fastforce
  note c1 = categorizeEmails_run [OF c]
  define cats where "cats = (case rc of Inl e \<Rightarrow> [] | Inr c \<Rightarrow> parseCategories c)"
  define s1 where "s1 = (case rc of Inl e \<Rightarrow> logError ''Error categorizing emails:'' e sc | Inr c \<Rightarrow> sc)"
  have s1: "backendLog s1 = backendLog sc" "sameStores s s1"
    using c1(3) by (auto simp: s1_def split: sum.splits)
  obtain rm sm where m: "generateSummary env (mergePrompt (join batchSeparator (map batch_summary bsums))) s1 = (rm, sm)"
    by fastforce
  note m1 = generateSummary_run [OF m]
  have unfold: "generateCombinedSummary env bsums es s =
      (case rm of Inl e \<Rightarrow> (Inl e, logError ''Error generating combined summary:'' e sm)
       | Inr t \<Rightarrow> (Inr (t, cats), sm))"
    using c m by (auto simp: generateCombinedSummary_def Let_def cats_def s1_def split: sum.splits)
  have len: "length (backendLog s1) = Suc n" using s1(1) c1(2) by (simp add: n_def)
  show "backendLog s' = backendLog s
           @ [(categorizeRequest es, chatCompletion env n (categorizeRequest es)),
              (mreq, chatCompletion env (Suc n) mreq)]"
    using assms(1) unfold m1(2) s1(1) c1(2) len
    by (auto simp: n_def mreq_def split: sum.splits)
  show "sameStores s s'"
    using assms(1) unfold m1(3) s1(2) by (auto split: sum.splits intro: sameStores_trans)
  show "r = (case chatCompletion env (Suc n) mreq of
                Inl e \<Rightarrow> Inl e
              | Inr t \<Rightarrow> Inr (trim t,
                   case chatCompletion env n (categorizeRequest es) of
                     Inl e \<Rightarrow> [] | Inr c \<Rightarrow> parseCategories (trim c)))"
    using assms(1) unfold m1(1) c1(1) len
    by (auto simp: n_def mreq_def cats_def split: sum.splits)
qed


lemma batchResponse_Cons:
  "batchResponse env n (b # bs) (Suc i) = batchResponse env (Suc n) bs i"
  by (simp add: batchResponse_def)

lemma batchResults_filter:
  "batchResults env n bs =
     map (\<lambda>i. \<lparr>batch_emails = bs ! i, batch_summary = trim (projr (batchResponse env n bs i))\<rparr>)
         (filter (\<lambda>i. \<not> isl (batchResponse env n bs i)) [0..<length bs])"
proof (induction bs arbitrary: n)
  case Nil
  show ?case by simp
next
  case (Cons b bs)
  have upt: "[0..<length (b # bs)] = 0 # map Suc [0..<length bs]"
    by (simp add: upt_conv_Cons map_Suc_upt del: upt_Suc)
  have r0: "batchResponse env n (b # bs) 0 = chatCompletion env n (summaryRequest (batchContent env b))"
    by (simp add: batchResponse_def)
  show ?case
    unfolding upt
    by (cases "chatCompletion env n (summaryRequest (batchContent env b))")
       (simp_all add: Cons.IH r0 filter_map comp_def batchResponse_Cons)
qed

lemma filter_neq_upt:
  assumes "j < k"
  shows "filter (\<lambda>i. i \<noteq> j) [0..<k] = [0..<j] @ [Suc j..<k]"
proof -
  have "[0..<k] = [0..<j] @ [j] @ [Suc j..<k]"
    using assms by (metis append_Cons append_Nil le_add2 le_add_same_cancel2 less_imp_add_positive upt_add_eq_append upt_conv_Cons)
  then show ?thesis by auto
qed

lemma length_filter_neq_upt: "j < k \<Longrightarrow> length (filter (\<lambda>i. i \<noteq> j) [0..<k]) = k - 1"
  by (simp add: filter_neq_upt)


lemma batches_loop_Nil: "batches_loop [] b 0 acc = Some acc"
  by (subst batches_loop.simps) simp

lemma prepare_Nil_iff [simp]: "prepareEmailsForSummary es = [] \<longleftrightarrow> es = []"
  by (simp add: prepareEmailsForSummary_def)

lemma summaries_log [simp]:
  "summaries (logInfo m s) = summaries s" "summaries (logError m e s) = summaries s"
  "emails (logInfo m s) = emails s" "emails (logError m e s) = emails s"
  "sentMail (logInfo m s) = sentMail s" "sentMail (logError m e s) = sentMail s"
  by (simp_all add: logInfo_def logError_def)

section \<open>Facts about createDailySummary\<close>

lemma processBatches_results:
  assumes "batches_loop es b 0 [] = Some batches"
  shows "\<exists>s2. processBatches env es b s1
               = Some (batchResults env (length (backendLog s1)) batches, s2)"
proof -
  obtain bsums s2 where sl: "summarize_loop env batches [] s1 = (bsums, s2)" by fastforce
  from summarize_loop_run [OF sl] sl assms show ?thesis
    by (simp add: processBatches_def)
qed

lemma findOne_append_new:
  "date doc \<notin> set (map date coll) \<Longrightarrow> findOne (coll @ [doc]) (date doc) = Some doc"
  by (induction coll) (auto simp: findOne_def)

lemma findOne_None_iff: "findOne coll d = None \<longleftrightarrow> d \<notin> set (map date coll)"
  by (induction coll) (auto simp: findOne_def)

lemma findOne_Some_date: "findOne coll d = Some doc \<Longrightarrow> date doc = d \<and> doc \<in> set coll"
  by (induction coll) (auto simp: findOne_def split: if_splits)

lemma generation_phase:
  assumes noex: "findOne (summaries s) (setHoursStart env dt) = None"
    and f: "getEmailsForSummary (setHoursStart env dt) (setHoursEnd env dt) s = fetched"
    and ne: "fetched \<noteq> []"
    and part: "batches_loop (prepareEmailsForSummary fetched) (batchSizeOf env) 0 [] = Some batches"
  obtains s3 where
    "sameStores s s3"
    "backendLog s3 = backendLog s @ batchCalls env (length (backendLog s)) batches
       @ [(categorizeRequest (prepareEmailsForSummary fetched),
           chatCompletion env (length (backendLog s) + length batches)
             (categorizeRequest (prepareEmailsForSummary fetched))),
          (mergeRequest env (length (backendLog s)) batches,
           chatCompletion env (Suc (length (backendLog s) + length batches))
             (mergeRequest env (length (backendLog s)) batches))]"
    "createDailySummary env dt s =
       (case chatCompletion env (Suc (length (backendLog s) + length batches))
               (mergeRequest env (length (backendLog s)) batches) of
          Inl e \<Rightarrow> Some (Inl e, logError ''Error creating daily summary:'' e s3)
        | Inr finalText \<Rightarrow>
            Some (persistSummary env (setHoursStart env dt) fetched (trim finalText)
                    (case chatCompletion env (length (backendLog s) + length batches)
                            (categorizeRequest (prepareEmailsForSummary fetched)) of
                       Inl e \<Rightarrow> [] | Inr c \<Rightarrow> parseCategories (trim c))
                    s3))"
    "\<And>e. chatCompletion env (Suc (length (backendLog s) + length batches))
               (mergeRequest env (length (backendLog s)) batches) = Inl e
          \<Longrightarrow> last (logged s3) = LogError ''Error generating combined summary:'' e"
proof -
  let ?s1 = "logInfo (''Generating summary for '' @ showNat (length fetched)
                                      @ '' emails from '' @ toDateString env (setHoursStart env dt)) s"
  let ?n0 = "length (backendLog s)"
  obtain bsums s2 where sl: "summarize_loop env batches [] ?s1 = (bsums, s2)" by fastforce
  from summarize_loop_run [OF sl]
  have bs: "bsums = batchResults env ?n0 batches"
    and l2: "backendLog s2 = backendLog s @ batchCalls env ?n0 batches"
    and st2: "sameStores s s2"
    by simp_all
  obtain r3 s3 where g: "generateCombinedSummary env bsums (prepareEmailsForSummary fetched) s2 = (r3, s3)"
    by fastforce
  have n2: "length (backendLog s2) = ?n0 + length batches"
    by (simp add: l2)
  note g3 = generateCombinedSummary_run [OF g, unfolded n2, folded bs, unfolded bs, folded mergeRequest_def]
  have st3: "sameStores s s3" using st2 g3(2) by (rule sameStores_trans)
  have l3: "backendLog s3 = backendLog s @ batchCalls env ?n0 batches
       @ [(categorizeRequest (prepareEmailsForSummary fetched),
           chatCompletion env (?n0 + length batches)
             (categorizeRequest (prepareEmailsForSummary fetched))),
          (mergeRequest env ?n0 batches,
           chatCompletion env (Suc (?n0 + length batches)) (mergeRequest env ?n0 batches))]"
    using g3(1) by (simp add: l2)
  have pb: "processBatches env (prepareEmailsForSummary fetched) (batchSizeOf env) ?s1 = Some (bsums, s2)"
    using sl by (simp add: processBatches_def part)
  have run: "createDailySummary env dt s =
       (case chatCompletion env (Suc (?n0 + length batches)) (mergeRequest env ?n0 batches) of
          Inl e \<Rightarrow> Some (Inl e, logError ''Error creating daily summary:'' e s3)
        | Inr finalText \<Rightarrow>
            Some (persistSummary env (setHoursStart env dt) fetched (trim finalText)
                    (case chatCompletion env (?n0 + length batches)
                            (categorizeRequest (prepareEmailsForSummary fetched)) of
                       Inl e \<Rightarrow> [] | Inr c \<Rightarrow> parseCategories (trim c))
                    s3))"
    using noex f ne pb g g3(3)
    by (cases "chatCompletion env (Suc (?n0 + length batches)) (mergeRequest env ?n0 batches)")
       (simp_all add: createDailySummary_def Let_def)
  have lg: "last (logged s3) = LogError ''Error generating combined summary:'' e"
    if "chatCompletion env (Suc (?n0 + length batches)) (mergeRequest env ?n0 batches) = Inl e" for e
  proof -
    obtain rc sc where c: "categorizeEmails env (prepareEmailsForSummary fetched) s2 = (rc, sc)"
      by fastforce
    define s1' where "s1' = (case rc of Inl e \<Rightarrow> logError ''Error categorizing emails:'' e sc | Inr c \<Rightarrow> sc)"
    have len: "length (backendLog s1') = Suc (?n0 + length batches)"
      using categorizeEmails_run(2) [OF c] n2 by (simp add: s1'_def split: sum.splits)
    obtain rm sm where m: "generateSummary env (mergePrompt (join batchSeparator (map batch_summary bsums))) s1' = (rm, sm)"
      by fastforce
    from generateSummary_run(1) [OF m] that have rm: "rm = Inl e"
      by (simp add: len bs mergeRequest_def)
    from g c m rm have "s3 = logError ''Error generating combined summary:'' e sm"
      by (simp add: generateCombinedSummary_def Let_def s1'_def split: sum.splits)
    then show ?thesis by (simp add: logError_def)
  qed
  from st3 l3 run lg show thesis by (rule that)
qed

lemma persistSummary_saved:
  assumes "finalContent \<noteq> []"
    and "findOne (concurrentWrites env (summaries s3)) startDate = None"
    and "updateManyError env = None"
  shows "\<exists>digest s'.
           persistSummary env startDate fetched finalContent categories s3
             = (Inr (Some digest), s')
         \<and> summaries s' = concurrentWrites env (summaries s3) @ [digest]
         \<and> date digest = startDate \<and> content digest = finalContent
         \<and> topicCategories digest = categories
         \<and> emailCount digest = length fetched \<and> emailIds digest = map email_id fetched
         \<and> isDistributed digest = False
         \<and> emails s' = markAll (map email_id fetched) (emails s3)
         \<and> backendLog s' = backendLog s3 \<and> sentMail s' = sentMail s3"
  using assms
  by (simp add: persistSummary_def Let_def save_def findOne_None_iff
                markEmailsAsSummarized_def markAll_def)

lemma persistSummary_duplicate:
  assumes "finalContent \<noteq> []"
    and "findOne (concurrentWrites env (summaries s3)) startDate = Some other"
  shows "\<exists>s'. persistSummary env startDate fetched finalContent categories s3
             = (Inl (DuplicateKeyError ''date_1''), s')
         \<and> summaries s' = concurrentWrites env (summaries s3)
         \<and> emails s' = emails s3
         \<and> backendLog s' = backendLog s3 \<and> sentMail s' = sentMail s3
         \<and> last (logged s') = LogError ''Error creating daily summary:'' (DuplicateKeyError ''date_1'')"
proof -
  from assms(2) have "startDate \<in> set (map date (concurrentWrites env (summaries s3)))"
    using findOne_None_iff [of "concurrentWrites env (summaries s3)" startDate] by simp
  with assms(1) show ?thesis
    by (simp add: persistSummary_def Let_def save_def logError_def)
qed

lemma persistSummary_mark_fails:
  assumes "finalContent \<noteq> []"
    and "findOne (concurrentWrites env (summaries s3)) startDate = None"
    and "updateManyError env = Some e"
  shows "\<exists>digest s'.
           persistSummary env startDate fetched finalContent categories s3 = (Inl e, s')
         \<and> summaries s' = concurrentWrites env (summaries s3) @ [digest]
         \<and> date digest = startDate \<and> content digest = finalContent
         \<and> emailCount digest = length fetched \<and> emailIds digest = map email_id fetched
         \<and> emails s' = markWritten (updateManyWritten env) (map email_id fetched) (emails s3)
         \<and> backendLog s' = backendLog s3 \<and> sentMail s' = sentMail s3
         \<and> logged s' = logged s3 @ [LogError ''Error marking emails as summarized:'' e,
                                     LogError ''Error creating daily summary:'' e]"
  using assms
  by (simp add: persistSummary_def Let_def save_def findOne_None_iff
                markEmailsAsSummarized_def logError_def markWritten_def)


lemma batchResults_one_fails:
  assumes "j < length batches"
    and "\<forall>i < length batches. isl (batchResponse env n0 batches i) \<longleftrightarrow> i = j"
  shows "batchResults env n0 batches =
           map (\<lambda>i. \<lparr>batch_emails = batches ! i,
                       batch_summary = trim (projr (batchResponse env n0 batches i))\<rparr>)
               (filter (\<lambda>i. i \<noteq> j) [0..<length batches])"
proof -
  have "filter (\<lambda>i. \<not> isl (batchResponse env n0 batches i)) [0..<length batches]
        = filter (\<lambda>i. i \<noteq> j) [0..<length batches]"
    using assms(2) by (intro filter_cong) auto
  then show ?thesis by (simp add: batchResults_filter)
qed

lemma batchResults_all_fail:
  assumes "\<forall>i < length batches. isl (batchResponse env n0 batches i)"
  shows "batchResults env n0 batches = []"
proof -
  have "filter (\<lambda>i. \<not> isl (batchResponse env n0 batches i)) [0..<length batches] = []"
    using assms by (auto simp: filter_empty_conv)
  then show ?thesis by (simp add: batchResults_filter)
qed

lemma markAll_marks:
  "email \<in> set (markAll ids es) \<Longrightarrow> email_id email \<in> set ids \<Longrightarrow> isSummarized email"
  by (auto simp: markAll_def split: if_splits)

lemma run_persists:
  assumes noex: "findOne (summaries s) (setHoursStart env dt) = None"
    and f: "getEmailsForSummary (setHoursStart env dt) (setHoursEnd env dt) s = fetched"
    and ne: "fetched \<noteq> []"
    and part: "batches_loop (prepareEmailsForSummary fetched) (batchSizeOf env) 0 [] = Some batches"
    and merge: "chatCompletion env (Suc (length (backendLog s) + length batches))
                  (mergeRequest env (length (backendLog s)) batches) = Inr finalText"
    and valid: "trim finalText \<noteq> []"
    and noconc: "findOne (concurrentWrites env (summaries s)) (setHoursStart env dt) = None"
    and mark: "updateManyError env = None"
  shows "\<exists>digest s'.
           createDailySummary env dt s = Some (Inr (Some digest), s')
         \<and> summaries s' = concurrentWrites env (summaries s) @ [digest]
         \<and> date digest = setHoursStart env dt
         \<and> content digest = trim finalText
         \<and> emailCount digest = length fetched
         \<and> emailIds digest = map email_id fetched
         \<and> isDistributed digest = False
         \<and> emails s' = markAll (map email_id fetched) (emails s)
         \<and> sentMail s' = sentMail s
         \<and> last (backendLog s') = (mergeRequest env (length (backendLog s)) batches, Inr finalText)"
proof -
  from generation_phase [OF noex f ne part] obtain s3 where
    st: "sameStores s s3"
    and l3: "backendLog s3 = backendLog s @ batchCalls env (length (backendLog s)) batches
       @ [(categorizeRequest (prepareEmailsForSummary fetched),
           chatCompletion env (length (backendLog s) + length batches)
             (categorizeRequest (prepareEmailsForSummary fetched))),
          (mergeRequest env (length (backendLog s)) batches,
           chatCompletion env (Suc (length (backendLog s) + length batches))
             (mergeRequest env (length (backendLog s)) batches))]"
    and run: "createDailySummary env dt s =
       (case chatCompletion env (Suc (length (backendLog s) + length batches))
               (mergeRequest env (length (backendLog s)) batches) of
          Inl e \<Rightarrow> Some (Inl e, logError ''Error creating daily summary:'' e s3)
        | Inr finalText \<Rightarrow>
            Some (persistSummary env (setHoursStart env dt) fetched (trim finalText)
                    (case chatCompletion env (length (backendLog s) + length batches)
                            (categorizeRequest (prepareEmailsForSummary fetched)) of
                       Inl e \<Rightarrow> [] | Inr c \<Rightarrow> parseCategories (trim c))
                    s3))"
    by blast
  from st have eq: "summaries s3 = summaries s" "emails s3 = emails s" "sentMail s3 = sentMail s"
    by (simp_all add: sameStores_def)
  from persistSummary_saved [of "trim finalText" env s3 "setHoursStart env dt", OF valid _ mark]
       noconc eq(1)
  obtain digest s' where
    p: "persistSummary env (setHoursStart env dt) fetched (trim finalText)
          (case chatCompletion env (length (backendLog s) + length batches)
                            (categorizeRequest (prepareEmailsForSummary fetched)) of
                       Inl e \<Rightarrow> [] | Inr c \<Rightarrow> parseCategories (trim c)) s3
        = (Inr (Some digest), s')"
    and q: "summaries s' = concurrentWrites env (summaries s3) @ [digest]"
      "date digest = setHoursStart env dt" "content digest = trim finalText"
      "emailCount digest = length fetched" "emailIds digest = map email_id fetched"
      "isDistributed digest = False"
      "emails s' = markAll (map email_id fetched) (emails s3)"
      "backendLog s' = backendLog s3" "sentMail s' = sentMail s3"
    by (metis (no_types, lifting))
  show ?thesis
    unfolding run using merge p q eq l3 by simp
qed

lemma run_duplicate:
  assumes noex: "findOne (summaries s) (setHoursStart env dt) = None"
    and f: "getEmailsForSummary (setHoursStart env dt) (setHoursEnd env dt) s = fetched"
    and ne: "fetched \<noteq> []"
    and part: "batches_loop (prepareEmailsForSummary fetched) (batchSizeOf env) 0 [] = Some batches"
    and merge: "chatCompletion env (Suc (length (backendLog s) + length batches))
                  (mergeRequest env (length (backendLog s)) batches) = Inr finalText"
    and valid: "trim finalText \<noteq> []"
    and dup: "findOne (concurrentWrites env (summaries s)) (setHoursStart env dt) = Some other"
  shows "\<exists>s'. createDailySummary env dt s = Some (Inl (DuplicateKeyError ''date_1''), s')
         \<and> summaries s' = concurrentWrites env (summaries s)
         \<and> emails s' = emails s
         \<and> last (logged s') = LogError ''Error creating daily summary:'' (DuplicateKeyError ''date_1'')"
proof -
  from generation_phase [OF noex f ne part] obtain s3 where
    st: "sameStores s s3"
    and run: "createDailySummary env dt s =
       (case chatCompletion env (Suc (length (backendLog s) + length batches))
               (mergeRequest env (length (backendLog s)) batches) of
          Inl e \<Rightarrow> Some (Inl e, logError ''Error creating daily summary:'' e s3)
        | Inr finalText \<Rightarrow>
            Some (persistSummary env (setHoursStart env dt) fetched (trim finalText)
                    (case chatCompletion env (length (backendLog s) + length batches)
                            (categorizeRequest (prepareEmailsForSummary fetched)) of
                       Inl e \<Rightarrow> [] | Inr c \<Rightarrow> parseCategories (trim c))
                    s3))"
    by blast
  from st have eq: "summaries s3 = summaries s" "emails s3 = emails s"
    by (simp_all add: sameStores_def)
  from persistSummary_duplicate [of "trim finalText" env s3 "setHoursStart env dt" other, OF valid]
       dup eq(1)
  obtain s' where
    p: "persistSummary env (setHoursStart env dt) fetched (trim finalText)
          (case chatCompletion env (length (backendLog s) + length batches)
                            (categorizeRequest (prepareEmailsForSummary fetched)) of
                       Inl e \<Rightarrow> [] | Inr c \<Rightarrow> parseCategories (trim c)) s3
        = (Inl (DuplicateKeyError ''date_1''), s')"
    and q: "summaries s' = concurrentWrites env (summaries s3)" "emails s' = emails s3"
      "last (logged s') = LogError ''Error creating daily summary:'' (DuplicateKeyError ''date_1'')"
    by (metis (no_types, lifting))
  show ?thesis
    unfolding run using merge p q eq by simp
qed

lemma run_mark_fails:
  assumes noex: "findOne (summaries s) (setHoursStart env dt) = None"
    and f: "getEmailsForSummary (setHoursStart env dt) (setHoursEnd env dt) s = fetched"
    and ne: "fetched \<noteq> []"
    and part: "batches_loop (prepareEmailsForSummary fetched) (batchSizeOf env) 0 [] = Some batches"
    and merge: "chatCompletion env (Suc (length (backendLog s) + length batches))
                  (mergeRequest env (length (backendLog s)) batches) = Inr finalText"
    and valid: "trim finalText \<noteq> []"
    and noconc: "findOne (concurrentWrites env (summaries s)) (setHoursStart env dt) = None"
    and mark: "updateManyError env = Some e"
  shows "\<exists>digest s'.
           createDailySummary env dt s = Some (Inl e, s')
         \<and> summaries s' = concurrentWrites env (summaries s) @ [digest]
         \<and> date digest = setHoursStart env dt
         \<and> emailCount digest = length fetched
         \<and> emails s' = markWritten (updateManyWritten env) (map email_id fetched) (emails s)
         \<and> LogError ''Error marking emails as summarized:'' e \<in> set (logged s')
         \<and> last (logged s') = LogError ''Error creating daily summary:'' e"
proof -
  from generation_phase [OF noex f ne part] obtain s3 where
    st: "sameStores s s3"
    and run: "createDailySummary env dt s =
       (case chatCompletion env (Suc (length (backendLog s) + length batches))
               (mergeRequest env (length (backendLog s)) batches) of
          Inl e \<Rightarrow> Some (Inl e, logError ''Error creating daily summary:'' e s3)
        | Inr finalText \<Rightarrow>
            Some (persistSummary env (setHoursStart env dt) fetched (trim finalText)
                    (case chatCompletion env (length (backendLog s) + length batches)
                            (categorizeRequest (prepareEmailsForSummary fetched)) of
                       Inl e \<Rightarrow> [] | Inr c \<Rightarrow> parseCategories (trim c))
                    s3))"
    by blast
  from st have eq: "summaries s3 = summaries s" "emails s3 = emails s"
    by (simp_all add: sameStores_def)
  from persistSummary_mark_fails [of "trim finalText" env s3 "setHoursStart env dt" e, OF valid _ mark]
       noconc eq(1)
  obtain digest s' where
    p: "persistSummary env (setHoursStart env dt) fetched (trim finalText)
          (case chatCompletion env (length (backendLog s) + length batches)
                            (categorizeRequest (prepareEmailsForSummary fetched)) of
                       Inl e \<Rightarrow> [] | Inr c \<Rightarrow> parseCategories (trim c)) s3
        = (Inl e, s')"
    and q: "summaries s' = concurrentWrites env (summaries s3) @ [digest]"
      "date digest = setHoursStart env dt" "emailCount digest = length fetched"
      "emails s' = markWritten (updateManyWritten env) (map email_id fetched) (emails s3)"
      "logged s' = logged s3 @ [LogError ''Error marking emails as summarized:'' e,
                                LogError ''Error creating daily summary:'' e]"
    by (metis (no_types, lifting))
  show ?thesis
    unfolding run using merge p q eq by simp
qed


lemma persistSummary_returns:
  assumes "persistSummary env d fetched c cats s3 = (Inr (Some digest), s')"
  shows "findOne (summaries s') d = Some digest"
proof -
  let ?coll = "concurrentWrites env (summaries s3)"
  let ?doc = "\<lparr>summary_id = newObjectId ?coll, date = d, topicCategories = cats,
               content = c, emailCount = length fetched, emailIds = map email_id fetched,
               isDistributed = False, distributedAt = None, distributionRecipients = []\<rparr>"
  show ?thesis
  proof (cases "save ?doc ?coll")
    case (Inl e)
    with assms show ?thesis by (simp add: persistSummary_def Let_def)
  next
    case (Inr coll')
    then have c': "coll' = ?coll @ [?doc]" and nd: "date ?doc \<notin> set (map date ?coll)"
      by (auto simp: save_def split: if_splits)
    show ?thesis
    proof (cases "updateManyError env")
      case None
      with assms Inr have "digest = ?doc" "summaries s' = coll'"
        by (auto simp: persistSummary_def Let_def markEmailsAsSummarized_def)
      with c' findOne_append_new [OF nd] show ?thesis by simp
    next
      case (Some e)
      with assms Inr show ?thesis
        by (simp add: persistSummary_def Let_def markEmailsAsSummarized_def)
    qed
  qed
qed

lemma createDailySummary_returned_is_stored:
  assumes "createDailySummary env dt s = Some (Inr (Some digest), s1)"
  shows "findOne (summaries s1) (setHoursStart env dt) = Some digest"
proof (cases "findOne (summaries s) (setHoursStart env dt)")
  case (Some existing)
  with assms show ?thesis by (auto simp: createDailySummary_def Let_def)
next
  case None
  let ?fetched = "getEmailsForSummary (setHoursStart env dt) (setHoursEnd env dt) s"
  let ?s1 = "logInfo (''Generating summary for '' @ showNat (length ?fetched)
               @ '' emails from '' @ toDateString env (setHoursStart env dt)) s"
  show ?thesis
  proof (cases "?fetched = []")
    case True
    with assms None show ?thesis by (simp add: createDailySummary_def Let_def)
  next
    case False
    show ?thesis
    proof (cases "processBatches env (prepareEmailsForSummary ?fetched) (batchSizeOf env) ?s1")
      case None2: None
      with assms None False show ?thesis by (simp add: createDailySummary_def Let_def)
    next
      case (Some pr)
      obtain bsums s2 where pr: "pr = (bsums, s2)" by (cases pr)
      obtain r3 s3 where g: "generateCombinedSummary env bsums (prepareEmailsForSummary ?fetched) s2 = (r3, s3)"
        by fastforce
      show ?thesis
      proof (cases r3)
        case (Inl e)
        with assms None False Some pr g show ?thesis
          by (simp add: createDailySummary_def Let_def)
      next
        case (Inr cc)
        obtain c cats where cc: "cc = (c, cats)" by (cases cc)
        from assms None False Some pr g Inr cc
        have "persistSummary env (setHoursStart env dt) ?fetched c cats s3 = (Inr (Some digest), s1)"
          by (simp add: createDailySummary_def Let_def)
        then show ?thesis by (rule persistSummary_returns)
      qed
    qed
  qed
qed

lemma createDailySummary_existing:
  assumes "findOne (summaries s) (setHoursStart env dt) = Some digest"
  shows "\<exists>s2. createDailySummary env dt s = Some (Inr (Some digest), s2)
            \<and> backendLog s2 = backendLog s \<and> sameStores s s2"
  using assms by (simp add: createDailySummary_def Let_def)

text \<open>When the run returns and when it does not.\<close>

lemma createDailySummary_diverges:
  assumes "findOne (summaries s) (setHoursStart env dt) = None"
    and "getEmailsForSummary (setHoursStart env dt) (setHoursEnd env dt) s \<noteq> []"
    and "batchSizeOf env < 0"
  shows "createDailySummary env dt s = None"
  using assms batches_loop_diverges
          [of "batchSizeOf env"
              "prepareEmailsForSummary
                 (getEmailsForSummary (setHoursStart env dt) (setHoursEnd env dt) s)"]
  by (simp add: createDailySummary_def Let_def processBatches_def)


lemma createDailySummary_returns:
  assumes "0 < batchSizeOf env"
  shows "\<exists>r s'. createDailySummary env dt s = Some (r, s')"
proof (cases "findOne (summaries s) (setHoursStart env dt)")
  case (Some existing)
  then show ?thesis by (simp add: createDailySummary_def Let_def)
next
  case None
  let ?fetched = "getEmailsForSummary (setHoursStart env dt) (setHoursEnd env dt) s"
  show ?thesis
  proof (cases "?fetched = []")
    case True
    with None show ?thesis by (simp add: createDailySummary_def Let_def)
  next
    case False
    from batches_loop_start [OF assms]
    have part: "batches_loop (prepareEmailsForSummary ?fetched) (batchSizeOf env) 0 []
                = Some (chunks (nat (batchSizeOf env)) (prepareEmailsForSummary ?fetched))" .
    from generation_phase [OF None refl False part] obtain s3 where
      run: "createDailySummary env dt s =
       (case chatCompletion env (Suc (length (backendLog s)
                 + length (chunks (nat (batchSizeOf env)) (prepareEmailsForSummary ?fetched))))
               (mergeRequest env (length (backendLog s))
                  (chunks (nat (batchSizeOf env)) (prepareEmailsForSummary ?fetched))) of
          Inl e \<Rightarrow> Some (Inl e, logError ''Error creating daily summary:'' e s3)
        | Inr finalText \<Rightarrow>
            Some (persistSummary env (setHoursStart env dt) ?fetched (trim finalText)
                    (case chatCompletion env (length (backendLog s)
                             + length (chunks (nat (batchSizeOf env))
                                         (prepareEmailsForSummary ?fetched)))
                            (categorizeRequest (prepareEmailsForSummary ?fetched)) of
                       Inl e \<Rightarrow> [] | Inr c \<Rightarrow> parseCategories (trim c))
                    s3))"
      by blast
    show ?thesis
      unfolding run by (auto split: sum.splits intro: prod.exhaust)
  qed
qed


section \<open>Facts about the example day\<close>

lemma example_fetch:
  assumes "setHoursStart env = setHoursStart env0" "setHoursEnd env = setHoursEnd env0"
  shows "getEmailsForSummary (setHoursStart env 0) (setHoursEnd env 0) world0 = emails world0"
  using assms by (simp add: getEmailsForSummary_def env0_def world0_def exampleEmail_def)

lemma example_batches:
  assumes "EMAILS_BATCH_SIZE env = Some 2"
  shows "batches_loop (prepareEmailsForSummary (emails world0)) (batchSizeOf env) 0 []
         = Some (chunks 2 (prepareEmailsForSummary (emails world0)))"
  using assms batches_loop_start [of 2 "prepareEmailsForSummary (emails world0)"]
  by (simp add: batchSizeOf_def)

lemma example_batch_count: "length (chunks 2 (prepareEmailsForSummary (emails world0))) = 3"
  by (simp add: length_chunks prepareEmailsForSummary_def world0_def)

lemma example_backendLog: "backendLog world0 = []"
  by (simp add: world0_def)

lemma example_trim: "trim ''Summary text'' = ''Summary text''"
  by (simp add: trim_def isWhiteSpace_def)

lemma example_noex: "findOne (summaries world0) d = None"
  by (simp add: world0_def findOne_def)

lemma example_not_empty: "emails world0 \<noteq> []"
  by (simp add: world0_def)

lemma example_ids:
  "map email_id (emails world0) = [1, 2, 3, 4, 5]" "length (emails world0) = 5"
  "map isSummarized (emails world0) = [False, False, False, False, False]"
  by (simp_all add: world0_def exampleEmail_def)

lemma example_marked:
  "map isSummarized (markAll (map email_id (emails world0)) (emails world0))
   = [True, True, True, True, True]"
  by (simp add: world0_def exampleEmail_def markAll_def)

lemma example_generation_ok:
  assumes "chatCompletion env = chatCompletion env0"
  shows "chatCompletion env (Suc (length (backendLog world0) + length batches))
           (mergeRequest env (length (backendLog world0)) batches) = Inr ''Summary text''"
  using assms by (simp add: env0_def)

section \<open>Facts about mail delivery and distribution\<close>

lemma initializeEmailService_frame:
  assumes "initializeEmailService env s = (service, s1)"
  shows "summaries s1 = summaries s \<and> emails s1 = emails s \<and> backendLog s1 = backendLog s
       \<and> sentMail s1 = sentMail s \<and> emailService s1 = Some service"
  using assms
  by (auto simp: initializeEmailService_def logInfo_def logError_def
           split: option.splits if_splits)

lemma initializeEmailService_resend:
  assumes "emailService s = Some ResendClient
           \<or> (emailService s = None \<and> truthy (RESEND_API_KEY env) \<and> resendInitError env = None)"
  shows "fst (initializeEmailService env s) = ResendClient"
  using assms by (auto simp: initializeEmailService_def)

lemma sendEmail_frame:
  assumes "sendEmail env mail s = (r, s')"
  shows "summaries s' = summaries s \<and> emails s' = emails s \<and> backendLog s' = backendLog s
       \<and> sentMail s' = sentMail s @ [mail] \<and> emailService s' \<noteq> None"
proof -
  obtain service s1 where i: "initializeEmailService env (s\<lparr>sentMail := sentMail s @ [mail]\<rparr>) = (service, s1)"
    by fastforce
  from initializeEmailService_frame [OF i] assms show ?thesis
    by (auto simp: sendEmail_def Let_def i logInfo_def logError_def split: sum.splits if_splits)
qed

lemma sendEmail_rejects_production:
  assumes "sendEmail env mail s = (Inl e, s')"
  shows "NODE_ENV env = Some ''production''"
proof -
  obtain service s1 where i: "initializeEmailService env (s\<lparr>sentMail := sentMail s @ [mail]\<rparr>) = (service, s1)"
    by fastforce
  from assms show ?thesis
    by (auto simp: sendEmail_def Let_def i split: sum.splits if_splits)
qed

lemma sendEmail_outside_production:
  assumes "NODE_ENV env \<noteq> Some ''production''"
  shows "\<exists>r s'. sendEmail env mail s = (Inr r, s')"
proof -
  obtain service s1 where i: "initializeEmailService env (s\<lparr>sentMail := sentMail s @ [mail]\<rparr>) = (service, s1)"
    by fastforce
  from assms show ?thesis
    by (auto simp: sendEmail_def Let_def i split: sum.splits if_splits)
qed

lemma sendEmail_resend_rejects:
  assumes prod: "NODE_ENV env = Some ''production''"
    and svc: "emailService s = Some ResendClient
              \<or> (emailService s = None \<and> truthy (RESEND_API_KEY env) \<and> resendInitError env = None)"
    and rej: "resendSend env (length (sentMail s)) (outgoing env mail) = Inl e"
  shows "\<exists>s'. sendEmail env mail s = (Inl e, s') \<and> emailService s' = Some ResendClient"
proof -
  obtain service s1 where i: "initializeEmailService env (s\<lparr>sentMail := sentMail s @ [mail]\<rparr>) = (service, s1)"
    by fastforce
  from svc have "fst (initializeEmailService env (s\<lparr>sentMail := sentMail s @ [mail]\<rparr>)) = ResendClient"
    by (intro initializeEmailService_resend) simp
  with i have sv: "service = ResendClient" by simp
  from initializeEmailService_frame [OF i] sv have es: "emailService s1 = Some ResendClient" by simp
  from prod rej es show ?thesis
    by (simp add: sendEmail_def Let_def i sv emailsSend_def logError_def)
qed

lemma findById_Some: "findById coll i = Some d \<Longrightarrow> summary_id d = i \<and> d \<in> set coll"
  by (induction coll) (auto simp: findById_def split: if_splits)

lemma findById_saveExisting:
  "findById coll i = Some old \<Longrightarrow> summary_id d = i \<Longrightarrow> findById (saveExisting d coll) i = Some d"
  by (induction coll) (auto simp: findById_def split: if_splits)

lemma distributeSummary_already:
  assumes "findById (summaries s) summaryId = Some summary" "isDistributed summary"
  shows "\<exists>s'. distributeSummary env summaryId s = (Inr summary, s')
            \<and> summaries s' = summaries s \<and> emails s' = emails s
            \<and> sentMail s' = sentMail s \<and> backendLog s' = backendLog s"
  using assms by (simp add: distributeSummary_def Let_def)

lemma distributeSummary_rejected:
  assumes "findById (summaries s) summaryId = Some summary" "isDistributed summary = False"
    and "truthy (SUMMARY_RECIPIENT_EMAIL env)"
    and "sendEmail env (distributionMail env summary (orUndefined (SUMMARY_RECIPIENT_EMAIL env))) s
         = (Inl e, s1)"
  shows "distributeSummary env summaryId s
         = (Inl e, logError (''Error distributing summary ID '' @ showNat summaryId @ '':'') e s1)"
  using assms by (simp add: distributeSummary_def Let_def)

lemma distributeSummary_sent:
  assumes "findById (summaries s) summaryId = Some summary" "isDistributed summary = False"
    and "truthy (SUMMARY_RECIPIENT_EMAIL env)"
    and "sendEmail env (distributionMail env summary (orUndefined (SUMMARY_RECIPIENT_EMAIL env))) s
         = (Inr r, s1)"
    and "saveExistingError env = None"
  shows "\<exists>s'. distributeSummary env summaryId s
              = (Inr (summary\<lparr>isDistributed := True, distributedAt := Some (now env),
                               distributionRecipients :=
                                 [orUndefined (SUMMARY_RECIPIENT_EMAIL env)]\<rparr>), s')
            \<and> summaries s'
                = saveExisting (summary\<lparr>isDistributed := True, distributedAt := Some (now env),
                                         distributionRecipients :=
                                           [orUndefined (SUMMARY_RECIPIENT_EMAIL env)]\<rparr>)
                    (summaries s)
            \<and> sentMail s' = sentMail s1 \<and> emailService s' = emailService s1"
  using assms sendEmail_frame [OF assms(4)]
  by (simp add: distributeSummary_def Let_def logInfo_def saveLoaded_def)

text \<open>The mail has gone and the save of the Digest is rejected.\<close>

lemma distributeSummary_unsaved:
  assumes "findById (summaries s) summaryId = Some summary" "isDistributed summary = False"
    and "truthy (SUMMARY_RECIPIENT_EMAIL env)"
    and "sendEmail env (distributionMail env summary (orUndefined (SUMMARY_RECIPIENT_EMAIL env))) s
         = (Inr r, s1)"
    and "saveExistingError env = Some e"
  shows "\<exists>s'. distributeSummary env summaryId s = (Inl e, s')
            \<and> summaries s'
                = (if saveExistingWritten env
                   then saveExisting (summary\<lparr>isDistributed := True, distributedAt := Some (now env),
                                               distributionRecipients :=
                                                 [orUndefined (SUMMARY_RECIPIENT_EMAIL env)]\<rparr>)
                          (summaries s)
                   else summaries s)
            \<and> sentMail s' = sentMail s1 \<and> emailService s' = emailService s1
            \<and> last (logged s')
                = LogError (''Error distributing summary ID '' @ showNat summaryId @ '':'') e"
  using assms sendEmail_frame [OF assms(4)]
  by (simp add: distributeSummary_def Let_def logError_def saveLoaded_def)

lemma distributeSummary_cases:
  obtains
    (missing) e s' where "findById (summaries s) summaryId = None"
      "distributeSummary env summaryId s = (Inl e, s')" "sentMail s' = sentMail s"
      "summaries s' = summaries s"
  | (already) summary s' where "findById (summaries s) summaryId = Some summary"
      "isDistributed summary" "distributeSummary env summaryId s = (Inr summary, s')"
      "sentMail s' = sentMail s" "summaries s' = summaries s"
  | (unconfigured) summary e s' where "findById (summaries s) summaryId = Some summary"
      "isDistributed summary = False" "\<not> truthy (SUMMARY_RECIPIENT_EMAIL env)"
      "distributeSummary env summaryId s = (Inl e, s')" "sentMail s' = sentMail s"
      "summaries s' = summaries s"
  | (rejected) summary e s1 s' where "findById (summaries s) summaryId = Some summary"
      "isDistributed summary = False" "truthy (SUMMARY_RECIPIENT_EMAIL env)"
      "sendEmail env (distributionMail env summary (orUndefined (SUMMARY_RECIPIENT_EMAIL env))) s
       = (Inl e, s1)"
      "distributeSummary env summaryId s = (Inl e, s')"
      "sentMail s' = sentMail s
         @ [distributionMail env summary (orUndefined (SUMMARY_RECIPIENT_EMAIL env))]"
      "summaries s' = summaries s"
  | (unsaved) summary r e s1 s' where "findById (summaries s) summaryId = Some summary"
      "isDistributed summary = False" "truthy (SUMMARY_RECIPIENT_EMAIL env)"
      "sendEmail env (distributionMail env summary (orUndefined (SUMMARY_RECIPIENT_EMAIL env))) s
       = (Inr r, s1)"
      "saveExistingError env = Some e"
      "distributeSummary env summaryId s = (Inl e, s')"
      "sentMail s' = sentMail s
         @ [distributionMail env summary (orUndefined (SUMMARY_RECIPIENT_EMAIL env))]"
      "summaries s'
       = (if saveExistingWritten env
          then saveExisting (summary\<lparr>isDistributed := True, distributedAt := Some (now env),
                                      distributionRecipients :=
                                        [orUndefined (SUMMARY_RECIPIENT_EMAIL env)]\<rparr>)
                 (summaries s)
          else summaries s)"
  | (sent) summary r s1 s' where "findById (summaries s) summaryId = Some summary"
      "isDistributed summary = False" "truthy (SUMMARY_RECIPIENT_EMAIL env)"
      "sendEmail env (distributionMail env summary (orUndefined (SUMMARY_RECIPIENT_EMAIL env))) s
       = (Inr r, s1)"
      "saveExistingError env = None"
      "distributeSummary env summaryId s
       = (Inr (summary\<lparr>isDistributed := True, distributedAt := Some (now env),
                        distributionRecipients := [orUndefined (SUMMARY_RECIPIENT_EMAIL env)]\<rparr>), s')"
      "sentMail s' = sentMail s
         @ [distributionMail env summary (orUndefined (SUMMARY_RECIPIENT_EMAIL env))]"
      "summaries s'
       = saveExisting (summary\<lparr>isDistributed := True, distributedAt := Some (now env),
                                distributionRecipients :=
                                  [orUndefined (SUMMARY_RECIPIENT_EMAIL env)]\<rparr>)
           (summaries s)"
proof -
  obtain r' s' where d: "distributeSummary env summaryId s = (r', s')" by fastforce
  show ?thesis
  proof (cases "findById (summaries s) summaryId")
    case None
    with d have "\<exists>e. r' = Inl e" "sentMail s' = sentMail s" "summaries s' = summaries s"
      by (auto simp: distributeSummary_def Let_def)
    then obtain e where "r' = Inl e" by blast
    with d have "distributeSummary env summaryId s = (Inl e, s')" by simp
    from missing [OF None this] \<open>sentMail s' = sentMail s\<close> \<open>summaries s' = summaries s\<close>
    show ?thesis by blast
  next
    case (Some summary)
    show ?thesis
    proof (cases "isDistributed summary")
      case True
      with Some d have "r' = Inr summary" "sentMail s' = sentMail s" "summaries s' = summaries s"
        by (auto simp: distributeSummary_def Let_def)
      with d already [OF Some True, of s'] show ?thesis by simp
    next
      case nd: False
      then have nd': "isDistributed summary = False" by simp
      show ?thesis
      proof (cases "truthy (SUMMARY_RECIPIENT_EMAIL env)")
        case False
        with Some nd d have "\<exists>e. r' = Inl e" "sentMail s' = sentMail s"
          "summaries s' = summaries s"
          by (auto simp: distributeSummary_def Let_def)
        then obtain e where "r' = Inl e" by blast
        with d have "distributeSummary env summaryId s = (Inl e, s')" by simp
        from unconfigured [OF Some nd' False this]
          \<open>sentMail s' = sentMail s\<close> \<open>summaries s' = summaries s\<close>
        show ?thesis by blast
      next
        case True
        let ?mail = "distributionMail env summary (orUndefined (SUMMARY_RECIPIENT_EMAIL env))"
        obtain r s1 where se: "sendEmail env ?mail s = (r, s1)" by fastforce
        note fr = sendEmail_frame [OF se]
        show ?thesis
        proof (cases r)
          case (Inl e)
          with se have se': "sendEmail env ?mail s = (Inl e, s1)" by simp
          from distributeSummary_rejected [OF Some nd' True se'] d
          have "r' = Inl e" "s' = logError (''Error distributing summary ID ''
                                            @ showNat summaryId @ '':'') e s1"
            by simp_all
          with fr d rejected [OF Some nd' True se', of s'] show ?thesis by simp
        next
          case (Inr res)
          with se have se': "sendEmail env ?mail s = (Inr res, s1)" by simp
          show ?thesis
          proof (cases "saveExistingError env")
            case noerr: None
            from distributeSummary_sent [OF Some nd' True se' noerr] d fr
                 sent [OF Some nd' True se' noerr, of s']
            show ?thesis by auto
          next
            case err: (Some e)
            from distributeSummary_unsaved [OF Some nd' True se' err] d fr
                 unsaved [OF Some nd' True se' err, of s']
            show ?thesis by auto
          qed
        qed
      qed
    qed
  qed
qed


lemma sendEmail_resend_delivers:
  assumes svc: "emailService s = Some ResendClient
              \<or> (emailService s = None \<and> truthy (RESEND_API_KEY env) \<and> resendInitError env = None)"
    and ok: "resendSend env (length (sentMail s)) (outgoing env mail) = Inr result"
    and ne: "result_error result = None"
  shows "\<exists>s'. sendEmail env mail s = (Inr result, s') \<and> emailService s' = Some ResendClient"
proof -
  obtain service s1 where i: "initializeEmailService env (s\<lparr>sentMail := sentMail s @ [mail]\<rparr>) = (service, s1)"
    by fastforce
  from svc have "fst (initializeEmailService env (s\<lparr>sentMail := sentMail s @ [mail]\<rparr>)) = ResendClient"
    by (intro initializeEmailService_resend) simp
  with i have sv: "service = ResendClient" by simp
  from initializeEmailService_frame [OF i] sv have es: "emailService s1 = Some ResendClient" by simp
  from ok ne es show ?thesis
    by (simp add: sendEmail_def Let_def i sv emailsSend_def logInfo_def)
qed

lemma sendEmail_resend_rejects_outside_production:
  assumes dev: "NODE_ENV env \<noteq> Some ''production''"
    and svc: "emailService s = Some ResendClient
              \<or> (emailService s = None \<and> truthy (RESEND_API_KEY env) \<and> resendInitError env = None)"
    and rej: "resendSend env (length (sentMail s)) (outgoing env mail) = Inl e"
  shows "\<exists>r s'. sendEmail env mail s = (Inr r, s') \<and> result_mock r
              \<and> LogError ''Error sending email:'' e \<in> set (logged s')"
proof -
  obtain service s1 where i: "initializeEmailService env (s\<lparr>sentMail := sentMail s @ [mail]\<rparr>) = (service, s1)"
    by fastforce
  from svc have "fst (initializeEmailService env (s\<lparr>sentMail := sentMail s @ [mail]\<rparr>)) = ResendClient"
    by (intro initializeEmailService_resend) simp
  with i have sv: "service = ResendClient" by simp
  from dev rej show ?thesis
    by (simp add: sendEmail_def Let_def i sv emailsSend_def logError_def)
qed

lemma distributeSummary_sent_logged:
  assumes "findById (summaries s) summaryId = Some summary" "isDistributed summary = False"
    and "truthy (SUMMARY_RECIPIENT_EMAIL env)"
    and "sendEmail env (distributionMail env summary (orUndefined (SUMMARY_RECIPIENT_EMAIL env))) s
         = (Inr r, s1)"
    and "saveExistingError env = None"
  shows "logged (snd (distributeSummary env summaryId s))
         = logged s1 @ [LogInfo (''Summary ID '' @ showNat summaryId @ '' distributed to ''
                                 @ orUndefined (SUMMARY_RECIPIENT_EMAIL env))]"
  using assms by (simp add: distributeSummary_def Let_def logInfo_def saveLoaded_def)

lemma distributeSummary_returns_stored:
  assumes "distributeSummary env summaryId s = (Inr d, s1)"
  shows "findById (summaries s1) summaryId = Some d \<and> isDistributed d"
proof (cases rule: distributeSummary_cases [of s summaryId env])
  case (missing e s')
  with assms show ?thesis by simp
next
  case (already summary s')
  with assms show ?thesis by simp
next
  case (unconfigured summary e s')
  with assms show ?thesis by simp
next
  case (rejected summary e s1' s')
  with assms show ?thesis by simp
next
  case (unsaved summary r e s1' s')
  with assms show ?thesis by simp
next
  case (sent summary r s1' s')
  from findById_Some [OF sent(1)] have "summary_id summary = summaryId" by simp
  with sent assms findById_saveExisting [OF sent(1), of
      "summary\<lparr>isDistributed := True, distributedAt := Some (now env),
                distributionRecipients := [orUndefined (SUMMARY_RECIPIENT_EMAIL env)]\<rparr>"]
  show ?thesis by auto
qed

lemma distributeSummary_sends_at_most_one:
  assumes "distributeSummary env summaryId s = (r, s1)"
  shows "length (sentMail s1) \<le> length (sentMail s) + 1"
  by (cases rule: distributeSummary_cases [of s summaryId env]) (use assms in auto)

lemma example_stored:
  "findById (summaries worldWithDigest) 1 = Some storedDigest"
  "isDistributed storedDigest = False"
  "summaries worldWithDigest = [storedDigest]"
  "sentMail worldWithDigest = []"
  "emailService worldWithDigest = None"
  by (simp_all add: worldWithDigest_def world0_def findById_def storedDigest_def)

section \<open>Category parsing: the claim\<close>

text \<open>
  C8. Parsing the categorization output splits the text into lines (joined by
  newlines the lines give the text back, and no line holds a newline), drops the blank
  lines, and turns each remaining line, in order, into one category. Its description is
  the whole trimmed line: the line is the description between two runs of white space,
  and the description is not empty and has no white space at either end. Its name is
  the trimmed part before the first colon when the line has a colon, and the whole
  trimmed line otherwise. The two-line example of the specification yields the
  categories Work and Personal; so does a text with padded lines, blank lines and
  carriage returns, the padding removed.
\<close>

theorem parseCategories_lines:
  "join [nl] (split nl text) = text
   \<and> list_all (\<lambda>line. nl \<notin> set line) (split nl text)
   \<and> list_all2
       (\<lambda>line category.
            (\<exists>a b. line = a @ description category @ b \<and> blank a \<and> blank b)
          \<and> noOuterWhiteSpace (description category)
          \<and> description category \<noteq> []
          \<and> (\<exists>p. (if CHR '':'' \<in> set line
                    then \<exists>rest. line = p @ CHR '':'' # rest \<and> CHR '':'' \<notin> set p
                    else p = line)
                 \<and> (\<exists>a b. p = a @ name category @ b \<and> blank a \<and> blank b))
          \<and> noOuterWhiteSpace (name category))
       (filter (\<lambda>line. \<not> blank line) (split nl text))
       (parseCategories text)
   \<and> parseCategories (''Work: meetings and deadlines'' @ [nl] @ ''Personal: vacation'') =
       [\<lparr>name = ''Work'', description = ''Work: meetings and deadlines''\<rparr>,
        \<lparr>name = ''Personal'', description = ''Personal: vacation''\<rparr>]
   \<and> parseCategories ([CHR 0x20, CHR 0x09] @ ''Work : meetings '' @ [nl, nl, CHR 0x20, CHR 0x0D, nl]
                       @ ''Personal'' @ [CHR 0x0D, nl])
       = [\<lparr>name = ''Work'', description = ''Work : meetings''\<rparr>,
          \<lparr>name = ''Personal'', description = ''Personal''\<rparr>]"
proof (intro conjI)
  show "join [nl] (split nl text) = text" by (rule join_split)
  show "list_all (\<lambda>line. nl \<notin> set line) (split nl text)" by (rule split_no_separator)
  have flt: "filter (\<lambda>line. length (trim line) > 0) ls = filter (\<lambda>line. \<not> blank line) ls" for ls
    by (rule filter_cong) (simp_all add: trim_Nil_iff)
  have one: "(\<exists>a b. line = a @ trim line @ b \<and> blank a \<and> blank b)
          \<and> noOuterWhiteSpace (trim line)
          \<and> (\<exists>p. (if CHR '':'' \<in> set line
                    then \<exists>rest. line = p @ CHR '':'' # rest \<and> CHR '':'' \<notin> set p
                    else p = line)
                 \<and> (\<exists>a b. p = a @ trim (takeWhile (\<lambda>c. c \<noteq> CHR '':'') line) @ b
                          \<and> blank a \<and> blank b))
          \<and> noOuterWhiteSpace (trim (takeWhile (\<lambda>c. c \<noteq> CHR '':'') line))" for line
    using trim_decompose [of line] trim_noOuterWhiteSpace [of line]
      before_colon [of "CHR '':''" line]
      trim_decompose [of "takeWhile (\<lambda>c. c \<noteq> CHR '':'') line"]
      trim_noOuterWhiteSpace [of "takeWhile (\<lambda>c. c \<noteq> CHR '':'') line"]
    by metis
  have nm: "(if CHR '':'' \<in> set line then trim (hd (split CHR '':'' line)) else trim line)
            = trim (takeWhile (\<lambda>c. c \<noteq> CHR '':'') line)" for line
  proof (cases "CHR '':'' \<in> set line")
    case True
    then show ?thesis by (simp add: hd_split)
  next
    case False
    then have tw: "takeWhile (\<lambda>c. c \<noteq> CHR '':'') line = line"
      unfolding takeWhile_eq_all_conv by blast
    show ?thesis unfolding tw using False by simp
  qed
  show "list_all2
       (\<lambda>line category.
            (\<exists>a b. line = a @ description category @ b \<and> blank a \<and> blank b)
          \<and> noOuterWhiteSpace (description category)
          \<and> description category \<noteq> []
          \<and> (\<exists>p. (if CHR '':'' \<in> set line
                    then \<exists>rest. line = p @ CHR '':'' # rest \<and> CHR '':'' \<notin> set p
                    else p = line)
                 \<and> (\<exists>a b. p = a @ name category @ b \<and> blank a \<and> blank b))
          \<and> noOuterWhiteSpace (name category))
       (filter (\<lambda>line. \<not> blank line) (split nl text))
       (parseCategories text)"
    unfolding parseCategories_def flt nm list_all2_map2
    by (rule list.rel_refl_strong) (use one in \<open>simp add: trim_Nil_iff\<close>)
  show "parseCategories (''Work: meetings and deadlines'' @ [nl] @ ''Personal: vacation'') =
       [\<lparr>name = ''Work'', description = ''Work: meetings and deadlines''\<rparr>,
        \<lparr>name = ''Personal'', description = ''Personal: vacation''\<rparr>]"
    by (simp add: parseCategories_def trim_def isWhiteSpace_def nl_def)
  show "parseCategories ([CHR 0x20, CHR 0x09] @ ''Work : meetings '' @ [nl, nl, CHR 0x20, CHR 0x0D, nl]
                       @ ''Personal'' @ [CHR 0x0D, nl])
       = [\<lparr>name = ''Work'', description = ''Work : meetings''\<rparr>,
          \<lparr>name = ''Personal'', description = ''Personal''\<rparr>]"
    by (simp add: parseCategories_def trim_def isWhiteSpace_def nl_def)
qed


section \<open>Partition completeness: the claim\<close>

text \<open>
  C2. For a list of N messages and a batch size B greater than zero the partition loop
  of processBatches ends and yields ceil(N/B) batches; batch k is the contiguous run of
  at most B messages that starts at position k*B, so the order is kept; every batch but
  the last has length B, the last holds the remainder and is not empty; concatenating
  the batches gives the list back; and an empty list gives no batch. The result is a
  function of the list and the batch size.
\<close>

theorem processBatches_partition:
  fixes emails :: "'a list" and batchSize :: int
  assumes "0 < batchSize"
  shows "\<exists>batches.
           batches_loop emails batchSize 0 [] = Some batches
         \<and> length batches = (length emails + nat batchSize - 1) div nat batchSize
         \<and> concat batches = emails
         \<and> (\<forall>k < length batches.
               batches ! k = take (nat batchSize) (drop (k * nat batchSize) emails))
         \<and> (\<forall>k. Suc k < length batches \<longrightarrow> length (batches ! k) = nat batchSize)
         \<and> (\<forall>k. Suc k = length batches \<longrightarrow>
               length (batches ! k) = length emails - k * nat batchSize
             \<and> 0 < length (batches ! k) \<and> length (batches ! k) \<le> nat batchSize)
         \<and> (emails = [] \<longrightarrow> batches = [])"
proof -
  have n: "0 < nat batchSize" using assms by simp
  show ?thesis
  proof (intro exI conjI)
    show "batches_loop emails batchSize 0 [] = Some (chunks (nat batchSize) emails)"
      using assms by (rule batches_loop_start)
    show "length (chunks (nat batchSize) emails)
          = (length emails + nat batchSize - 1) div nat batchSize"
      using n by (rule length_chunks)
    show "concat (chunks (nat batchSize) emails) = emails"
      using n by (rule concat_chunks)
    show "\<forall>k < length (chunks (nat batchSize) emails).
            chunks (nat batchSize) emails ! k
            = take (nat batchSize) (drop (k * nat batchSize) emails)"
      using n by (simp add: nth_chunks)
    show "\<forall>k. Suc k < length (chunks (nat batchSize) emails) \<longrightarrow>
            length (chunks (nat batchSize) emails ! k) = nat batchSize"
      using n by (simp add: chunks_inner_length)
    show "\<forall>k. Suc k = length (chunks (nat batchSize) emails) \<longrightarrow>
            length (chunks (nat batchSize) emails ! k) = length emails - k * nat batchSize
          \<and> 0 < length (chunks (nat batchSize) emails ! k)
          \<and> length (chunks (nat batchSize) emails ! k) \<le> nat batchSize"
      using n chunks_last_length [of "nat batchSize" _ emails] by blast
    show "emails = [] \<longrightarrow> chunks (nat batchSize) emails = []"
      by simp
  qed
qed

theorem processBatches_partition_witness:
  "(0::int) < 2
   \<and> (\<exists>batches. batches_loop [1, 2, 3, 4, 5 :: nat] 2 0 [] = Some batches
        \<and> length batches = 3 \<and> concat batches = [1, 2, 3, 4, 5]
        \<and> batches ! 0 = [1, 2] \<and> batches ! 1 = [3, 4] \<and> batches ! 2 = [5])"
proof -
  have h: "(0::int) < 2" by simp
  obtain batches where b: "batches_loop [1, 2, 3, 4, 5 :: nat] 2 0 [] = Some batches"
    and nth: "\<forall>k < length batches. batches ! k = take (nat 2) (drop (k * nat 2) [1, 2, 3, 4, 5])"
    and len: "length batches = (length [1, 2, 3, 4, 5 :: nat] + nat 2 - 1) div nat 2"
    and cat: "concat batches = [1, 2, 3, 4, 5]"
    using processBatches_partition [OF h, of "[1, 2, 3, 4, 5 :: nat]"] by blast
  from len have l3: "length batches = 3" by simp
  have "batches ! 0 = [1, 2]" "batches ! 1 = [3, 4]" "batches ! 2 = [5]"
    using nth l3 by simp_all
  with b l3 cat h show ?thesis by blast
qed

section \<open>Merge failure: the claim\<close>

text \<open>
  C3. When the run reaches the merge step (no Digest for the day, some messages
  fetched, the partition done) and the generation call of the merge step fails with
  \<open>e\<close>, createDailySummary returns: it rejects with \<open>e\<close>, the summaries and the
  messages are what they were before the run (so no Digest is stored and no
  \<open>isSummarized\<close> flag has changed), no mail is sent, the failed merge request is the
  last request made, and the outer handler has logged the error.
\<close>

theorem merge_failure_aborts:
  assumes noex: "findOne (summaries s) (setHoursStart env dt) = None"
    and f: "getEmailsForSummary (setHoursStart env dt) (setHoursEnd env dt) s = fetched"
    and ne: "fetched \<noteq> []"
    and part: "batches_loop (prepareEmailsForSummary fetched) (batchSizeOf env) 0 [] = Some batches"
    and merge: "chatCompletion env (Suc (length (backendLog s) + length batches))
                  (mergeRequest env (length (backendLog s)) batches) = Inl e"
  shows "\<exists>s'. createDailySummary env dt s = Some (Inl e, s')
            \<and> summaries s' = summaries s \<and> emails s' = emails s \<and> sentMail s' = sentMail s
            \<and> last (backendLog s') = (mergeRequest env (length (backendLog s)) batches, Inl e)
            \<and> last (logged s') = LogError ''Error creating daily summary:'' e"
proof -
  from generation_phase [OF noex f ne part] obtain s3 where
    st: "sameStores s s3"
    and l3: "backendLog s3 = backendLog s @ batchCalls env (length (backendLog s)) batches
       @ [(categorizeRequest (prepareEmailsForSummary fetched),
           chatCompletion env (length (backendLog s) + length batches)
             (categorizeRequest (prepareEmailsForSummary fetched))),
          (mergeRequest env (length (backendLog s)) batches,
           chatCompletion env (Suc (length (backendLog s) + length batches))
             (mergeRequest env (length (backendLog s)) batches))]"
    and run: "createDailySummary env dt s =
       (case chatCompletion env (Suc (length (backendLog s) + length batches))
               (mergeRequest env (length (backendLog s)) batches) of
          Inl e \<Rightarrow> Some (Inl e, logError ''Error creating daily summary:'' e s3)
        | Inr finalText \<Rightarrow>
            Some (persistSummary env (setHoursStart env dt) fetched (trim finalText)
                    (case chatCompletion env (length (backendLog s) + length batches)
                            (categorizeRequest (prepareEmailsForSummary fetched)) of
                       Inl e \<Rightarrow> [] | Inr c \<Rightarrow> parseCategories (trim c))
                    s3))"
    by blast
  show ?thesis
    unfolding run using merge st l3 by (simp add: sameStores_def logError_def)
qed

theorem merge_failure_aborts_witness:
  "findOne (summaries world0) (setHoursStart envMergeFails 0) = None
   \<and> chatCompletion envMergeFails 4
        (mergeRequest envMergeFails 0 (chunks 2 (prepareEmailsForSummary (emails world0))))
       = Inl (ProviderError ''503'')
   \<and> (\<exists>s'. createDailySummary envMergeFails 0 world0 = Some (Inl (ProviderError ''503''), s')
          \<and> summaries s' = [] \<and> emails s' = emails world0)"
proof -
  have noex: "findOne (summaries world0) (setHoursStart envMergeFails 0) = None"
    by (simp add: world0_def findOne_def)
  have f: "getEmailsForSummary (setHoursStart envMergeFails 0) (setHoursEnd envMergeFails 0) world0
           = emails world0"
    by (rule example_fetch) (simp_all add: envMergeFails_def)
  have ne: "emails world0 \<noteq> []" by (simp add: world0_def)
  have part: "batches_loop (prepareEmailsForSummary (emails world0)) (batchSizeOf envMergeFails) 0 []
              = Some (chunks 2 (prepareEmailsForSummary (emails world0)))"
    by (rule example_batches) (simp add: envMergeFails_def env0_def)
  have merge: "chatCompletion envMergeFails
                 (Suc (length (backendLog world0)
                       + length (chunks 2 (prepareEmailsForSummary (emails world0)))))
                 (mergeRequest envMergeFails (length (backendLog world0))
                    (chunks 2 (prepareEmailsForSummary (emails world0))))
               = Inl (ProviderError ''503'')"
    by (simp add: example_batch_count example_backendLog envMergeFails_def)
  have m4: "chatCompletion envMergeFails 4
        (mergeRequest envMergeFails 0 (chunks 2 (prepareEmailsForSummary (emails world0))))
       = Inl (ProviderError ''503'')"
    by (simp add: envMergeFails_def)
  have s0: "summaries world0 = []" by (simp add: world0_def)
  from merge_failure_aborts [OF noex f ne part merge] noex m4 s0
  show ?thesis by auto
qed


section \<open>Partial batch failure: the claim\<close>

text \<open>
  C4. A run finds no Digest for the day, fetches N messages and splits them into K
  batches; the summary request fails for batch \<open>j\<close> and for no other, and nothing else
  fails (the merge call answers a non-empty text, no other writer stores a Digest for
  the day, the marking succeeds). Then processBatches returns exactly K-1 summaries,
  those of the other batches in batch order; they are what the merge request is built
  from; the run returns a Digest that is stored, with emailCount N and the
  identifiers of all N fetched messages; and every fetched message is marked
  summarized. This holds whichever batch \<open>j\<close> failed.
\<close>

theorem partial_batch_failure_isolated:
  assumes noex: "findOne (summaries s) (setHoursStart env dt) = None"
    and f: "getEmailsForSummary (setHoursStart env dt) (setHoursEnd env dt) s = fetched"
    and part: "batches_loop (prepareEmailsForSummary fetched) (batchSizeOf env) 0 [] = Some batches"
    and j: "j < length batches"
    and onefail: "\<forall>i < length batches.
                    isl (batchResponse env (length (backendLog s)) batches i) \<longleftrightarrow> i = j"
    and merge: "chatCompletion env (Suc (length (backendLog s) + length batches))
                  (mergeRequest env (length (backendLog s)) batches) = Inr finalText"
    and valid: "trim finalText \<noteq> []"
    and noconc: "findOne (concurrentWrites env (summaries s)) (setHoursStart env dt) = None"
    and mark: "updateManyError env = None"
  shows "(\<forall>s1. backendLog s1 = backendLog s \<longrightarrow>
           (\<exists>s2. processBatches env (prepareEmailsForSummary fetched) (batchSizeOf env) s1
                 = Some (map (\<lambda>i. \<lparr>batch_emails = batches ! i,
                                     batch_summary =
                                       trim (projr (batchResponse env (length (backendLog s))
                                                      batches i))\<rparr>)
                             (filter (\<lambda>i. i \<noteq> j) [0..<length batches]), s2)))
       \<and> length (filter (\<lambda>i. i \<noteq> j) [0..<length batches]) = length batches - 1
       \<and> mergeRequest env (length (backendLog s)) batches
           = summaryRequest (mergePrompt (join batchSeparator
               (map (\<lambda>i. trim (projr (batchResponse env (length (backendLog s)) batches i)))
                    (filter (\<lambda>i. i \<noteq> j) [0..<length batches]))))
       \<and> (\<exists>digest s'.
             createDailySummary env dt s = Some (Inr (Some digest), s')
           \<and> digest \<in> set (summaries s')
           \<and> emailCount digest = length fetched
           \<and> emailIds digest = map email_id fetched
           \<and> length (emailIds digest) = length fetched
           \<and> (\<forall>email \<in> set (emails s').
                 email_id email \<in> set (map email_id fetched) \<longrightarrow> isSummarized email)
           \<and> last (backendLog s')
               = (mergeRequest env (length (backendLog s)) batches, Inr finalText))"
proof -
  have ne: "fetched \<noteq> []"
  proof
    assume "fetched = []"
    with part have "batches = []" by (simp add: prepareEmailsForSummary_def batches_loop_Nil)
    with j show False by simp
  qed
  have res: "batchResults env (length (backendLog s)) batches =
           map (\<lambda>i. \<lparr>batch_emails = batches ! i,
                       batch_summary = trim (projr (batchResponse env (length (backendLog s)) batches i))\<rparr>)
               (filter (\<lambda>i. i \<noteq> j) [0..<length batches])"
    using j onefail by (rule batchResults_one_fails)
  have a: "\<forall>s1. backendLog s1 = backendLog s \<longrightarrow>
           (\<exists>s2. processBatches env (prepareEmailsForSummary fetched) (batchSizeOf env) s1
                 = Some (map (\<lambda>i. \<lparr>batch_emails = batches ! i,
                                     batch_summary =
                                       trim (projr (batchResponse env (length (backendLog s))
                                                      batches i))\<rparr>)
                             (filter (\<lambda>i. i \<noteq> j) [0..<length batches]), s2))"
    using processBatches_results [OF part, of env] res by metis
  have b: "length (filter (\<lambda>i. i \<noteq> j) [0..<length batches]) = length batches - 1"
    using j by (rule length_filter_neq_upt)
  have c: "mergeRequest env (length (backendLog s)) batches
           = summaryRequest (mergePrompt (join batchSeparator
               (map (\<lambda>i. trim (projr (batchResponse env (length (backendLog s)) batches i)))
                    (filter (\<lambda>i. i \<noteq> j) [0..<length batches]))))"
    by (simp add: mergeRequest_def res comp_def)
  from run_persists [OF noex f ne part merge valid noconc mark]
  obtain digest s' where r: "createDailySummary env dt s = Some (Inr (Some digest), s')"
    and q: "summaries s' = concurrentWrites env (summaries s) @ [digest]"
      "emailCount digest = length fetched" "emailIds digest = map email_id fetched"
      "emails s' = markAll (map email_id fetched) (emails s)"
      "last (backendLog s') = (mergeRequest env (length (backendLog s)) batches, Inr finalText)"
    by blast
  have d: "\<exists>digest s'.
             createDailySummary env dt s = Some (Inr (Some digest), s')
           \<and> digest \<in> set (summaries s')
           \<and> emailCount digest = length fetched
           \<and> emailIds digest = map email_id fetched
           \<and> length (emailIds digest) = length fetched
           \<and> (\<forall>email \<in> set (emails s').
                 email_id email \<in> set (map email_id fetched) \<longrightarrow> isSummarized email)
           \<and> last (backendLog s')
               = (mergeRequest env (length (backendLog s)) batches, Inr finalText)"
    using r q markAll_marks [of _ "map email_id fetched" "emails s"]
    by (intro exI [of _ digest] exI [of _ s']) auto
  from a b c d show ?thesis by blast
qed

theorem partial_batch_failure_isolated_witness:
  "\<not> isl (batchResponse envOneFails 0 (chunks 2 (prepareEmailsForSummary (emails world0))) 0)
   \<and> isl (batchResponse envOneFails 0 (chunks 2 (prepareEmailsForSummary (emails world0))) 1)
   \<and> \<not> isl (batchResponse envOneFails 0 (chunks 2 (prepareEmailsForSummary (emails world0))) 2)
   \<and> (\<exists>digest s'.
         createDailySummary envOneFails 0 world0 = Some (Inr (Some digest), s')
       \<and> digest \<in> set (summaries s')
       \<and> emailCount digest = 5
       \<and> emailIds digest = [1, 2, 3, 4, 5]
       \<and> length (filter (\<lambda>i. i \<noteq> 1) [0..<3]) = (2::nat))
   \<and> (\<exists>summarized s2.
         processBatches envOneFails (prepareEmailsForSummary (emails world0))
           (batchSizeOf envOneFails) world0 = Some (summarized, s2)
       \<and> length summarized = 2)"
proof -
  let ?batches = "chunks 2 (prepareEmailsForSummary (emails world0))"
  have noex: "findOne (summaries world0) (setHoursStart envOneFails 0) = None"
    by (simp add: world0_def findOne_def)
  have f: "getEmailsForSummary (setHoursStart envOneFails 0) (setHoursEnd envOneFails 0) world0
           = emails world0"
    by (rule example_fetch) (simp_all add: envOneFails_def)
  have part: "batches_loop (prepareEmailsForSummary (emails world0)) (batchSizeOf envOneFails) 0 []
              = Some ?batches"
    by (rule example_batches) (simp add: envOneFails_def env0_def)
  have j: "1 < length ?batches" by (simp add: example_batch_count)
  have onefail: "\<forall>i < length ?batches.
                    isl (batchResponse envOneFails (length (backendLog world0)) ?batches i)
                    \<longleftrightarrow> i = 1"
    by (simp add: example_batch_count example_backendLog batchResponse_def envOneFails_def)
  have merge: "chatCompletion envOneFails (Suc (length (backendLog world0) + length ?batches))
                 (mergeRequest envOneFails (length (backendLog world0)) ?batches)
               = Inr ''Summary text''"
    by (simp add: example_batch_count example_backendLog envOneFails_def)
  have valid: "trim ''Summary text'' \<noteq> []" by (simp add: example_trim)
  have noconc: "findOne (concurrentWrites envOneFails (summaries world0))
                  (setHoursStart envOneFails 0) = None"
    by (simp add: world0_def findOne_def envOneFails_def env0_def)
  have mark: "updateManyError envOneFails = None"
    by (simp add: envOneFails_def env0_def)
  have ids: "map email_id (emails world0) = [1, 2, 3, 4, 5]" "length (emails world0) = 5"
    by (simp_all add: world0_def exampleEmail_def)
  note inst = partial_batch_failure_isolated [OF noex f part j onefail merge valid noconc mark]
  from inst obtain digest s' where
    "createDailySummary envOneFails 0 world0 = Some (Inr (Some digest), s')"
    "digest \<in> set (summaries s')" "emailCount digest = length (emails world0)"
    "emailIds digest = map email_id (emails world0)"
    by blast
  moreover from inst obtain s2 where
    "processBatches envOneFails (prepareEmailsForSummary (emails world0))
       (batchSizeOf envOneFails) world0
     = Some (map (\<lambda>i. \<lparr>batch_emails = ?batches ! i,
                         batch_summary =
                           trim (projr (batchResponse envOneFails (length (backendLog world0))
                                          ?batches i))\<rparr>)
                 (filter (\<lambda>i. i \<noteq> 1) [0..<length ?batches]), s2)"
    by blast
  then have "\<exists>summarized s2.
         processBatches envOneFails (prepareEmailsForSummary (emails world0))
           (batchSizeOf envOneFails) world0 = Some (summarized, s2)
       \<and> length summarized = 2"
    by (simp add: example_batch_count length_filter_neq_upt)
  moreover have "\<not> isl (batchResponse envOneFails 0 ?batches 0)"
    "isl (batchResponse envOneFails 0 ?batches 1)"
    "\<not> isl (batchResponse envOneFails 0 ?batches 2)"
    by (simp_all add: batchResponse_def envOneFails_def)
  moreover have "length (filter (\<lambda>i. i \<noteq> 1) [0..<3]) = (2::nat)"
    by (simp add: length_filter_neq_upt)
  ultimately show ?thesis unfolding ids by blast
qed


section \<open>Idempotent re-entry: the claim\<close>

text \<open>
  C1. After an invocation of createDailySummary for a date that returned a Digest, or
  that left a Digest stored for that date whatever it returned, the Digest is the one
  stored for the start of that day, and a second invocation for the date returns
  exactly this Digest. The second invocation adds nothing to the trace of
  generation-backend requests (no batch summary, no categorization, no merge) and
  changes neither collection. The services may answer the second invocation
  differently; only the host's start-of-day function has to be the same.
\<close>

theorem createDailySummary_idempotent:
  assumes first: "createDailySummary env dt s = Some (r1, s1)"
    and persisted: "r1 = Inr (Some digest)
                    \<or> findOne (summaries s1) (setHoursStart env dt) = Some digest"
    and zone: "setHoursStart env' dt = setHoursStart env dt"
  shows "findOne (summaries s1) (setHoursStart env dt) = Some digest
       \<and> (\<exists>s2. createDailySummary env' dt s1 = Some (Inr (Some digest), s2)
              \<and> backendLog s2 = backendLog s1
              \<and> summaries s2 = summaries s1 \<and> emails s2 = emails s1
              \<and> sentMail s2 = sentMail s1)"
proof -
  have stored: "findOne (summaries s1) (setHoursStart env dt) = Some digest"
    using persisted first createDailySummary_returned_is_stored by blast
  then have "findOne (summaries s1) (setHoursStart env' dt) = Some digest"
    by (simp add: zone)
  from createDailySummary_existing [OF this] stored show ?thesis
    by (auto simp: sameStores_def)
qed

theorem createDailySummary_idempotent_witness:
  "\<exists>digest s1 s2.
     createDailySummary env0 0 world0 = Some (Inr (Some digest), s1)
   \<and> summaries world0 = [] \<and> summaries s1 = [digest]
   \<and> createDailySummary env0 0 s1 = Some (Inr (Some digest), s2)
   \<and> backendLog s2 = backendLog s1"
proof -
  let ?batches = "chunks 2 (prepareEmailsForSummary (emails world0))"
  have noex: "findOne (summaries world0) (setHoursStart env0 0) = None"
    by (simp add: world0_def findOne_def)
  have f: "getEmailsForSummary (setHoursStart env0 0) (setHoursEnd env0 0) world0 = emails world0"
    by (rule example_fetch) simp_all
  have ne: "emails world0 \<noteq> []" by (simp add: world0_def)
  have part: "batches_loop (prepareEmailsForSummary (emails world0)) (batchSizeOf env0) 0 []
              = Some ?batches"
    by (rule example_batches) (simp add: env0_def)
  have merge: "chatCompletion env0 (Suc (length (backendLog world0) + length ?batches))
                 (mergeRequest env0 (length (backendLog world0)) ?batches)
               = Inr ''Summary text''"
    by (simp add: env0_def)
  have valid: "trim ''Summary text'' \<noteq> []" by (simp add: example_trim)
  have noconc: "findOne (concurrentWrites env0 (summaries world0)) (setHoursStart env0 0) = None"
    by (simp add: world0_def findOne_def env0_def)
  have mark: "updateManyError env0 = None" by (simp add: env0_def)
  from run_persists [OF noex f ne part merge valid noconc mark]
  obtain digest s1 where r: "createDailySummary env0 0 world0 = Some (Inr (Some digest), s1)"
    and st: "summaries s1 = concurrentWrites env0 (summaries world0) @ [digest]"
    by blast
  have s0: "summaries world0 = []" by (simp add: world0_def)
  from st have st': "summaries s1 = [digest]" by (simp add: s0 env0_def)
  from createDailySummary_idempotent [OF r, of digest env0]
  obtain s2 where "createDailySummary env0 0 s1 = Some (Inr (Some digest), s2)"
    "backendLog s2 = backendLog s1"
    by auto
  with r s0 st' show ?thesis by blast
qed


section \<open>Every batch fails: the claim\<close>

text \<open>
  C5, as the specification states it: when the summary request fails for every batch
  the run is cut short as if no message had been found, so that no Digest is stored
  and no message is marked. On the example day with the first three requests failing
  (the three batches) the output of processBatches is empty, yet the run returns a
  Digest counting five messages, the summaries collection goes from empty to one
  document, and all five messages end up marked.
\<close>

theorem all_batches_fail_counterexample:
  "map_option fst (processBatches envAllFail (prepareEmailsForSummary (emails world0))
                     (batchSizeOf envAllFail) world0) = Some []
   \<and> map_option (map_sum id (map_option emailCount) \<circ> fst)
        (createDailySummary envAllFail 0 world0) = Some (Inr (Some 5))
   \<and> summaries world0 = []
   \<and> map_option (length \<circ> summaries \<circ> snd) (createDailySummary envAllFail 0 world0) = Some 1
   \<and> map isSummarized (emails world0) = [False, False, False, False, False]
   \<and> map_option (map isSummarized \<circ> emails \<circ> snd) (createDailySummary envAllFail 0 world0)
       = Some [True, True, True, True, True]"
proof -
  let ?batches = "chunks 2 (prepareEmailsForSummary (emails world0))"
  have f: "getEmailsForSummary (setHoursStart envAllFail 0) (setHoursEnd envAllFail 0) world0
           = emails world0"
    by (rule example_fetch) (simp_all add: envAllFail_def)
  have part: "batches_loop (prepareEmailsForSummary (emails world0)) (batchSizeOf envAllFail) 0 []
              = Some ?batches"
    by (rule example_batches) (simp add: envAllFail_def env0_def)
  have allfail: "\<forall>i < length ?batches.
                   isl (batchResponse envAllFail (length (backendLog world0)) ?batches i)"
    by (simp add: example_batch_count example_backendLog batchResponse_def envAllFail_def)
  have none: "batchResults envAllFail (length (backendLog world0)) ?batches = []"
    using allfail by (rule batchResults_all_fail)
  have merge: "chatCompletion envAllFail (Suc (length (backendLog world0) + length ?batches))
                 (mergeRequest envAllFail (length (backendLog world0)) ?batches)
               = Inr ''Summary text''"
    by (simp add: example_batch_count example_backendLog envAllFail_def)
  have valid: "trim ''Summary text'' \<noteq> []" by (simp add: example_trim)
  have noconc: "findOne (concurrentWrites envAllFail (summaries world0))
                  (setHoursStart envAllFail 0) = None"
    by (simp add: world0_def findOne_def envAllFail_def env0_def)
  have mark: "updateManyError envAllFail = None"
    by (simp add: envAllFail_def env0_def)
  from processBatches_results [OF part, of envAllFail world0] none
  have a: "map_option fst (processBatches envAllFail (prepareEmailsForSummary (emails world0))
                     (batchSizeOf envAllFail) world0) = Some []"
    by auto
  from run_persists [OF example_noex f example_not_empty part merge valid noconc mark]
  obtain digest s' where r: "createDailySummary envAllFail 0 world0 = Some (Inr (Some digest), s')"
    and q: "summaries s' = concurrentWrites envAllFail (summaries world0) @ [digest]"
      "emailCount digest = length (emails world0)"
      "emails s' = markAll (map email_id (emails world0)) (emails world0)"
    by blast
  have s0: "summaries world0 = []" by (simp add: world0_def)
  have m: "map isSummarized (emails s') = [True, True, True, True, True]"
    by (simp only: q(3) example_marked)
  have l: "length (summaries s') = 1"
    by (simp add: q(1) s0 envAllFail_def env0_def)
  from r q(2) a s0 m l show ?thesis
    by (simp add: example_ids)
qed


text \<open>
  C5, amended. When the summary request fails for every batch, processBatches returns
  the empty list, and createDailySummary goes on: the merge request is made for an
  empty combined text, and when it answers a non-empty text (no other writer having
  stored a Digest for the day, the marking succeeding) the run returns a stored Digest
  with that content, counting all fetched messages, and every fetched message is
  marked summarized.
\<close>

theorem all_batches_fail_still_persists:
  assumes noex: "findOne (summaries s) (setHoursStart env dt) = None"
    and f: "getEmailsForSummary (setHoursStart env dt) (setHoursEnd env dt) s = fetched"
    and ne: "fetched \<noteq> []"
    and part: "batches_loop (prepareEmailsForSummary fetched) (batchSizeOf env) 0 [] = Some batches"
    and allfail: "\<forall>i < length batches. isl (batchResponse env (length (backendLog s)) batches i)"
    and merge: "chatCompletion env (Suc (length (backendLog s) + length batches))
                  (summaryRequest (mergePrompt [])) = Inr finalText"
    and valid: "trim finalText \<noteq> []"
    and noconc: "findOne (concurrentWrites env (summaries s)) (setHoursStart env dt) = None"
    and mark: "updateManyError env = None"
  shows "(\<forall>s1. backendLog s1 = backendLog s \<longrightarrow>
           (\<exists>s2. processBatches env (prepareEmailsForSummary fetched) (batchSizeOf env) s1
                 = Some ([], s2)))
       \<and> (\<exists>digest s'.
             createDailySummary env dt s = Some (Inr (Some digest), s')
           \<and> digest \<in> set (summaries s')
           \<and> content digest = trim finalText
           \<and> emailCount digest = length fetched
           \<and> emailIds digest = map email_id fetched
           \<and> (\<forall>email \<in> set (emails s').
                 email_id email \<in> set (map email_id fetched) \<longrightarrow> isSummarized email)
           \<and> last (backendLog s') = (summaryRequest (mergePrompt []), Inr finalText))"
proof -
  have none: "batchResults env (length (backendLog s)) batches = []"
    using allfail by (rule batchResults_all_fail)
  then have mr: "mergeRequest env (length (backendLog s)) batches = summaryRequest (mergePrompt [])"
    by (simp add: mergeRequest_def)
  have a: "\<forall>s1. backendLog s1 = backendLog s \<longrightarrow>
           (\<exists>s2. processBatches env (prepareEmailsForSummary fetched) (batchSizeOf env) s1
                 = Some ([], s2))"
    using processBatches_results [OF part, of env] none by metis
  from run_persists [OF noex f ne part merge [folded mr] valid noconc mark]
  obtain digest s' where r: "createDailySummary env dt s = Some (Inr (Some digest), s')"
    and q: "summaries s' = concurrentWrites env (summaries s) @ [digest]"
      "content digest = trim finalText"
      "emailCount digest = length fetched" "emailIds digest = map email_id fetched"
      "emails s' = markAll (map email_id fetched) (emails s)"
      "last (backendLog s') = (mergeRequest env (length (backendLog s)) batches, Inr finalText)"
    by blast
  have d: "\<exists>digest s'.
             createDailySummary env dt s = Some (Inr (Some digest), s')
           \<and> digest \<in> set (summaries s')
           \<and> content digest = trim finalText
           \<and> emailCount digest = length fetched
           \<and> emailIds digest = map email_id fetched
           \<and> (\<forall>email \<in> set (emails s').
                 email_id email \<in> set (map email_id fetched) \<longrightarrow> isSummarized email)
           \<and> last (backendLog s') = (summaryRequest (mergePrompt []), Inr finalText)"
    using r q markAll_marks [of _ "map email_id fetched" "emails s"] mr
    by (intro exI [of _ digest] exI [of _ s']) auto
  from a d show ?thesis by blast
qed

theorem all_batches_fail_still_persists_witness:
  "isl (batchResponse envAllFail 0 (chunks 2 (prepareEmailsForSummary (emails world0))) 0)
   \<and> isl (batchResponse envAllFail 0 (chunks 2 (prepareEmailsForSummary (emails world0))) 1)
   \<and> isl (batchResponse envAllFail 0 (chunks 2 (prepareEmailsForSummary (emails world0))) 2)
   \<and> chatCompletion envAllFail 4 (summaryRequest (mergePrompt [])) = Inr ''Summary text''
   \<and> (\<exists>digest s'.
         createDailySummary envAllFail 0 world0 = Some (Inr (Some digest), s')
       \<and> digest \<in> set (summaries s')
       \<and> content digest = ''Summary text''
       \<and> emailCount digest = 5)
   \<and> (\<exists>s2. processBatches envAllFail (prepareEmailsForSummary (emails world0))
               (batchSizeOf envAllFail) world0 = Some ([], s2))"
proof -
  let ?batches = "chunks 2 (prepareEmailsForSummary (emails world0))"
  have f: "getEmailsForSummary (setHoursStart envAllFail 0) (setHoursEnd envAllFail 0) world0
           = emails world0"
    by (rule example_fetch) (simp_all add: envAllFail_def)
  have part: "batches_loop (prepareEmailsForSummary (emails world0)) (batchSizeOf envAllFail) 0 []
              = Some ?batches"
    by (rule example_batches) (simp add: envAllFail_def env0_def)
  have allfail: "\<forall>i < length ?batches.
                   isl (batchResponse envAllFail (length (backendLog world0)) ?batches i)"
    by (simp add: example_batch_count example_backendLog batchResponse_def envAllFail_def)
  have merge: "chatCompletion envAllFail (Suc (length (backendLog world0) + length ?batches))
                 (summaryRequest (mergePrompt [])) = Inr ''Summary text''"
    by (simp add: example_batch_count example_backendLog envAllFail_def)
  have valid: "trim ''Summary text'' \<noteq> []" by (simp add: example_trim)
  have noconc: "findOne (concurrentWrites envAllFail (summaries world0))
                  (setHoursStart envAllFail 0) = None"
    by (simp add: world0_def findOne_def envAllFail_def env0_def)
  have mark: "updateManyError envAllFail = None"
    by (simp add: envAllFail_def env0_def)
  note inst = all_batches_fail_still_persists
         [OF example_noex f example_not_empty part allfail merge valid noconc mark]
  from inst obtain digest s' where
    "createDailySummary envAllFail 0 world0 = Some (Inr (Some digest), s')"
    "digest \<in> set (summaries s')" "content digest = trim ''Summary text''"
    "emailCount digest = length (emails world0)"
    by blast
  moreover from inst have
    "\<exists>s2. processBatches envAllFail (prepareEmailsForSummary (emails world0))
               (batchSizeOf envAllFail) world0 = Some ([], s2)"
    by blast
  moreover have "isl (batchResponse envAllFail 0 ?batches 0)"
    "isl (batchResponse envAllFail 0 ?batches 1)"
    "isl (batchResponse envAllFail 0 ?batches 2)"
    by (simp_all add: batchResponse_def envAllFail_def)
  moreover have "chatCompletion envAllFail 4 (summaryRequest (mergePrompt [])) = Inr ''Summary text''"
    by (simp add: envAllFail_def)
  ultimately show ?thesis unfolding example_ids example_trim by blast
qed

section \<open>Duplicate date on save: the claim\<close>

text \<open>
  C6, as the specification states it: when the save meets the unique index on the
  date, the run returns the Digest that is already there. On the example day another
  writer stores a Digest for day 0 while the run generates; the run finds none at its
  existence check, the save finds that one, and the run rejects with the
  duplicate-key error.
\<close>

theorem duplicate_date_counterexample:
  "findOne (summaries world0) (setHoursStart envDuplicate 0) = None
   \<and> findOne (concurrentWrites envDuplicate (summaries world0)) (setHoursStart envDuplicate 0)
       = Some otherDigest
   \<and> map_option fst (createDailySummary envDuplicate 0 world0)
       = Some (Inl (DuplicateKeyError ''date_1''))"
proof -
  have f: "getEmailsForSummary (setHoursStart envDuplicate 0) (setHoursEnd envDuplicate 0) world0
           = emails world0"
    by (rule example_fetch) (simp_all add: envDuplicate_def)
  have part: "batches_loop (prepareEmailsForSummary (emails world0)) (batchSizeOf envDuplicate) 0 []
              = Some (chunks 2 (prepareEmailsForSummary (emails world0)))"
    by (rule example_batches) (simp add: envDuplicate_def env0_def)
  have merge: "chatCompletion envDuplicate
                 (Suc (length (backendLog world0)
                       + length (chunks 2 (prepareEmailsForSummary (emails world0)))))
                 (mergeRequest envDuplicate (length (backendLog world0))
                    (chunks 2 (prepareEmailsForSummary (emails world0))))
               = Inr ''Summary text''"
    by (rule example_generation_ok) (simp add: envDuplicate_def)
  have valid: "trim ''Summary text'' \<noteq> []" by (simp add: example_trim)
  have dup: "findOne (concurrentWrites envDuplicate (summaries world0))
               (setHoursStart envDuplicate 0) = Some otherDigest"
    by (simp add: world0_def findOne_def envDuplicate_def env0_def otherDigest_def)
  from run_duplicate [OF example_noex f example_not_empty part merge valid dup]
  obtain s' where "createDailySummary envDuplicate 0 world0
                   = Some (Inl (DuplicateKeyError ''date_1''), s')"
    by blast
  with dup example_noex show ?thesis by simp
qed


text \<open>
  C6, amended. When the save fails on the unique index of the date, createDailySummary
  logs the duplicate-key error and rejects with it; the collection holds what the
  other writer left and nothing more, and no message is marked. The Digest already
  there is returned only by a later invocation for the date, which makes no
  generation request.
\<close>

theorem duplicate_date_propagates:
  assumes noex: "findOne (summaries s) (setHoursStart env dt) = None"
    and f: "getEmailsForSummary (setHoursStart env dt) (setHoursEnd env dt) s = fetched"
    and ne: "fetched \<noteq> []"
    and part: "batches_loop (prepareEmailsForSummary fetched) (batchSizeOf env) 0 [] = Some batches"
    and merge: "chatCompletion env (Suc (length (backendLog s) + length batches))
                  (mergeRequest env (length (backendLog s)) batches) = Inr finalText"
    and valid: "trim finalText \<noteq> []"
    and dup: "findOne (concurrentWrites env (summaries s)) (setHoursStart env dt) = Some other"
  shows "\<exists>s'. createDailySummary env dt s = Some (Inl (DuplicateKeyError ''date_1''), s')
            \<and> summaries s' = concurrentWrites env (summaries s)
            \<and> emails s' = emails s
            \<and> last (logged s')
                = LogError ''Error creating daily summary:'' (DuplicateKeyError ''date_1'')
            \<and> (\<exists>s''. createDailySummary env dt s' = Some (Inr (Some other), s'')
                     \<and> backendLog s'' = backendLog s')"
proof -
  from run_duplicate [OF noex f ne part merge valid dup]
  obtain s' where r: "createDailySummary env dt s = Some (Inl (DuplicateKeyError ''date_1''), s')"
    and q: "summaries s' = concurrentWrites env (summaries s)" "emails s' = emails s"
      "last (logged s') = LogError ''Error creating daily summary:'' (DuplicateKeyError ''date_1'')"
    by blast
  from dup q(1) have "findOne (summaries s') (setHoursStart env dt) = Some other" by simp
  from createDailySummary_existing [OF this] r q show ?thesis by blast
qed

theorem duplicate_date_propagates_witness:
  "findOne (concurrentWrites envDuplicate (summaries world0)) (setHoursStart envDuplicate 0)
     = Some otherDigest
   \<and> (\<exists>s' s''. createDailySummary envDuplicate 0 world0
                   = Some (Inl (DuplicateKeyError ''date_1''), s')
        \<and> summaries s' = [otherDigest]
        \<and> emails s' = emails world0
        \<and> createDailySummary envDuplicate 0 s' = Some (Inr (Some otherDigest), s''))"
proof -
  have f: "getEmailsForSummary (setHoursStart envDuplicate 0) (setHoursEnd envDuplicate 0) world0
           = emails world0"
    by (rule example_fetch) (simp_all add: envDuplicate_def)
  have part: "batches_loop (prepareEmailsForSummary (emails world0)) (batchSizeOf envDuplicate) 0 []
              = Some (chunks 2 (prepareEmailsForSummary (emails world0)))"
    by (rule example_batches) (simp add: envDuplicate_def env0_def)
  have merge: "chatCompletion envDuplicate
                 (Suc (length (backendLog world0)
                       + length (chunks 2 (prepareEmailsForSummary (emails world0)))))
                 (mergeRequest envDuplicate (length (backendLog world0))
                    (chunks 2 (prepareEmailsForSummary (emails world0))))
               = Inr ''Summary text''"
    by (rule example_generation_ok) (simp add: envDuplicate_def)
  have valid: "trim ''Summary text'' \<noteq> []" by (simp add: example_trim)
  have dup: "findOne (concurrentWrites envDuplicate (summaries world0))
               (setHoursStart envDuplicate 0) = Some otherDigest"
    by (simp add: world0_def findOne_def envDuplicate_def env0_def otherDigest_def)
  have cw: "concurrentWrites envDuplicate (summaries world0) = [otherDigest]"
    by (simp add: world0_def envDuplicate_def)
  from duplicate_date_propagates [OF example_noex f example_not_empty part merge valid dup]
  show ?thesis using dup unfolding cw by blast
qed


section \<open>Failure of the marking: the claim\<close>

text \<open>
  C7, as the specification states it: a failure of the marking after the save is only
  logged and the run does not fail. On the example day with \<open>updateMany\<close> failing the
  run rejects with that error, the Digest being stored.
\<close>

theorem mark_failure_counterexample:
  "updateManyError envMarkFails = Some (DatabaseError ''connection lost'')
   \<and> map_option fst (createDailySummary envMarkFails 0 world0)
       = Some (Inl (DatabaseError ''connection lost''))
   \<and> map_option (length \<circ> summaries \<circ> snd) (createDailySummary envMarkFails 0 world0) = Some 1"
proof -
  have f: "getEmailsForSummary (setHoursStart envMarkFails 0) (setHoursEnd envMarkFails 0) world0
           = emails world0"
    by (rule example_fetch) (simp_all add: envMarkFails_def)
  have part: "batches_loop (prepareEmailsForSummary (emails world0)) (batchSizeOf envMarkFails) 0 []
              = Some (chunks 2 (prepareEmailsForSummary (emails world0)))"
    by (rule example_batches) (simp add: envMarkFails_def env0_def)
  have merge: "chatCompletion envMarkFails
                 (Suc (length (backendLog world0)
                       + length (chunks 2 (prepareEmailsForSummary (emails world0)))))
                 (mergeRequest envMarkFails (length (backendLog world0))
                    (chunks 2 (prepareEmailsForSummary (emails world0))))
               = Inr ''Summary text''"
    by (rule example_generation_ok) (simp add: envMarkFails_def)
  have valid: "trim ''Summary text'' \<noteq> []" by (simp add: example_trim)
  have noconc: "findOne (concurrentWrites envMarkFails (summaries world0))
                  (setHoursStart envMarkFails 0) = None"
    by (simp add: world0_def findOne_def envMarkFails_def env0_def)
  have mark: "updateManyError envMarkFails = Some (DatabaseError ''connection lost'')"
    by (simp add: envMarkFails_def)
  from run_mark_fails [OF example_noex f example_not_empty part merge valid noconc mark]
  obtain digest s' where
    "createDailySummary envMarkFails 0 world0 = Some (Inl (DatabaseError ''connection lost''), s')"
    "summaries s' = concurrentWrites envMarkFails (summaries world0) @ [digest]"
    by blast
  with mark show ?thesis by (simp add: world0_def envMarkFails_def env0_def)
qed


text \<open>
  C7, amended. When marking the fetched messages fails after the Digest has been
  saved, the Digest stays stored (it is the one found for the day, counting all
  fetched messages), the failure is logged by markEmailsAsSummarized and again by the
  outer handler, and createDailySummary rejects with the error. Nothing is said of the
  messages: the rejected update may have marked none, some or all of them.
\<close>

theorem mark_failure_propagates:
  assumes noex: "findOne (summaries s) (setHoursStart env dt) = None"
    and f: "getEmailsForSummary (setHoursStart env dt) (setHoursEnd env dt) s = fetched"
    and ne: "fetched \<noteq> []"
    and part: "batches_loop (prepareEmailsForSummary fetched) (batchSizeOf env) 0 [] = Some batches"
    and merge: "chatCompletion env (Suc (length (backendLog s) + length batches))
                  (mergeRequest env (length (backendLog s)) batches) = Inr finalText"
    and valid: "trim finalText \<noteq> []"
    and noconc: "findOne (concurrentWrites env (summaries s)) (setHoursStart env dt) = None"
    and mark: "updateManyError env = Some e"
  shows "\<exists>digest s'.
           createDailySummary env dt s = Some (Inl e, s')
         \<and> findOne (summaries s') (setHoursStart env dt) = Some digest
         \<and> digest \<in> set (summaries s')
         \<and> emailCount digest = length fetched
         \<and> LogError ''Error marking emails as summarized:'' e \<in> set (logged s')
         \<and> last (logged s') = LogError ''Error creating daily summary:'' e"
proof -
  from run_mark_fails [OF noex f ne part merge valid noconc mark]
  obtain digest s' where r: "createDailySummary env dt s = Some (Inl e, s')"
    and q: "summaries s' = concurrentWrites env (summaries s) @ [digest]"
      "date digest = setHoursStart env dt" "emailCount digest = length fetched"
      "LogError ''Error marking emails as summarized:'' e \<in> set (logged s')"
      "last (logged s') = LogError ''Error creating daily summary:'' e"
    by blast
  from noconc have "date digest \<notin> set (map date (concurrentWrites env (summaries s)))"
    by (simp add: findOne_None_iff q(2))
  from findOne_append_new [OF this]
  have "findOne (summaries s') (setHoursStart env dt) = Some digest"
    by (simp add: q(1,2))
  with r q show ?thesis by auto
qed

theorem mark_failure_propagates_witness:
  "updateManyError envMarkFailsPartway = Some (DatabaseError ''connection lost'')
   \<and> (\<exists>digest s'.
         createDailySummary envMarkFailsPartway 0 world0
           = Some (Inl (DatabaseError ''connection lost''), s')
       \<and> findOne (summaries s') 0 = Some digest
       \<and> emailCount digest = 5
       \<and> map isSummarized (emails s') = [True, True, False, False, False]
       \<and> last (logged s')
           = LogError ''Error creating daily summary:'' (DatabaseError ''connection lost''))"
proof -
  let ?env = envMarkFailsPartway
  have f: "getEmailsForSummary (setHoursStart ?env 0) (setHoursEnd ?env 0) world0
           = emails world0"
    by (rule example_fetch) (simp_all add: envMarkFailsPartway_def envMarkFails_def)
  have part: "batches_loop (prepareEmailsForSummary (emails world0)) (batchSizeOf ?env) 0 []
              = Some (chunks 2 (prepareEmailsForSummary (emails world0)))"
    by (rule example_batches) (simp add: envMarkFailsPartway_def envMarkFails_def env0_def)
  have merge: "chatCompletion ?env
                 (Suc (length (backendLog world0)
                       + length (chunks 2 (prepareEmailsForSummary (emails world0)))))
                 (mergeRequest ?env (length (backendLog world0))
                    (chunks 2 (prepareEmailsForSummary (emails world0))))
               = Inr ''Summary text''"
    by (rule example_generation_ok) (simp add: envMarkFailsPartway_def envMarkFails_def)
  have valid: "trim ''Summary text'' \<noteq> []" by (simp add: example_trim)
  have noconc: "findOne (concurrentWrites ?env (summaries world0)) (setHoursStart ?env 0) = None"
    by (simp add: world0_def findOne_def envMarkFailsPartway_def envMarkFails_def env0_def)
  have mark: "updateManyError ?env = Some (DatabaseError ''connection lost'')"
    by (simp add: envMarkFailsPartway_def envMarkFails_def)
  have start: "setHoursStart ?env 0 = 0"
    by (simp add: envMarkFailsPartway_def envMarkFails_def env0_def)
  from mark_failure_propagates [OF example_noex f example_not_empty part merge valid noconc mark]
  obtain digest s' where
    r: "createDailySummary ?env 0 world0 = Some (Inl (DatabaseError ''connection lost''), s')"
    and q: "findOne (summaries s') (setHoursStart ?env 0) = Some digest"
      "emailCount digest = length (emails world0)"
      "last (logged s') = LogError ''Error creating daily summary:'' (DatabaseError ''connection lost'')"
    by blast
  from run_mark_fails [OF example_noex f example_not_empty part merge valid noconc mark] r
  have "emails s' = markWritten (updateManyWritten ?env) (map email_id (emails world0))
                      (emails world0)"
    by auto
  then have m: "map isSummarized (emails s') = [True, True, False, False, False]"
    by (simp add: markWritten_def world0_def exampleEmail_def envMarkFailsPartway_def)
  have n: "length (emails world0) = 5" by (simp add: world0_def)
  from r q m mark show ?thesis unfolding start n by auto
qed

section \<open>Failure of the delivery during distribution: the claim\<close>

text \<open>
  C9, as the specification states it: when the delivery of the mail fails, the failure
  reaches the caller of distributeSummary and the Digest is marked distributed only
  after a successful delivery. With \<open>NODE_ENV\<close> set to development and a mail service
  that rejects every message, the delivery made for the stored Digest is rejected, yet
  distributeSummary returns the Digest marked distributed, and so it is stored:
  sendEmail has logged the failure and answered it with its mock success.
\<close>

theorem delivery_failure_counterexample:
  "NODE_ENV envDevelopmentMailFails = Some ''development''
   \<and> emailsSend envDevelopmentMailFails ResendClient 0
        (outgoing envDevelopmentMailFails
           (distributionMail envDevelopmentMailFails storedDigest ''reader@example.com''))
       = Inl (Error ''Resend is unreachable'')
   \<and> map isDistributed (summaries worldWithDigest) = [False]
   \<and> map_sum id isDistributed (fst (distributeSummary envDevelopmentMailFails 1 worldWithDigest))
       = Inr True
   \<and> map isDistributed
        (summaries (snd (distributeSummary envDevelopmentMailFails 1 worldWithDigest))) = [True]
   \<and> LogError ''Error sending email:'' (Error ''Resend is unreachable'')
       \<in> set (logged (snd (distributeSummary envDevelopmentMailFails 1 worldWithDigest)))"
proof -
  let ?env = envDevelopmentMailFails
  let ?mail = "distributionMail ?env storedDigest (orUndefined (SUMMARY_RECIPIENT_EMAIL ?env))"
  have dev: "NODE_ENV ?env = Some ''development''"
    by (simp add: envDevelopmentMailFails_def)
  have rc: "truthy (SUMMARY_RECIPIENT_EMAIL ?env)"
    and ru: "orUndefined (SUMMARY_RECIPIENT_EMAIL ?env) = ''reader@example.com''"
    by (simp_all add: envDevelopmentMailFails_def env0_def truthy_def orUndefined_def)
  have del: "emailsSend ?env ResendClient 0
        (outgoing ?env (distributionMail ?env storedDigest ''reader@example.com''))
       = Inl (Error ''Resend is unreachable'')"
    by (simp add: emailsSend_def envDevelopmentMailFails_def failingResend_def)
  have np: "NODE_ENV ?env \<noteq> Some ''production''" using dev by simp
  have svc: "emailService worldWithDigest = Some ResendClient
             \<or> (emailService worldWithDigest = None \<and> truthy (RESEND_API_KEY ?env)
                \<and> resendInitError ?env = None)"
    by (simp add: example_stored envDevelopmentMailFails_def env0_def truthy_def)
  have rej: "resendSend ?env (length (sentMail worldWithDigest)) (outgoing ?env ?mail)
             = Inl (Error ''Resend is unreachable'')"
    by (simp add: envDevelopmentMailFails_def failingResend_def)
  from sendEmail_resend_rejects_outside_production [OF np svc rej]
  obtain r s1 where se: "sendEmail ?env ?mail worldWithDigest = (Inr r, s1)"
    and inlog: "LogError ''Error sending email:'' (Error ''Resend is unreachable'')
                \<in> set (logged s1)"
    by blast
  have ns: "saveExistingError ?env = None"
    by (simp add: envDevelopmentMailFails_def env0_def)
  from distributeSummary_sent [OF example_stored(1,2) rc se ns]
  obtain s' where d: "distributeSummary ?env 1 worldWithDigest
              = (Inr (storedDigest\<lparr>isDistributed := True, distributedAt := Some (now ?env),
                               distributionRecipients :=
                                 [orUndefined (SUMMARY_RECIPIENT_EMAIL ?env)]\<rparr>), s')"
    and st: "summaries s'
                = saveExisting (storedDigest\<lparr>isDistributed := True, distributedAt := Some (now ?env),
                                         distributionRecipients :=
                                           [orUndefined (SUMMARY_RECIPIENT_EMAIL ?env)]\<rparr>)
                    (summaries worldWithDigest)"
    by blast
  have l: "LogError ''Error sending email:'' (Error ''Resend is unreachable'')
           \<in> set (logged (snd (distributeSummary ?env 1 worldWithDigest)))"
    using inlog distributeSummary_sent_logged [OF example_stored(1,2) rc se ns] by simp
  show ?thesis
    using dev del d st example_stored(2,3) l by simp
qed


text \<open>
  C9, amended. For a stored Digest that is not yet distributed, with a recipient
  configured: when sendEmail rejects, which it does only where \<open>NODE_ENV\<close> is
  production, distributeSummary logs the error and rejects with it, and the summaries
  collection, so the Digest and its distribution fields, is unchanged; whenever
  distributeSummary returns a Digest it is marked distributed and sendEmail has
  returned a result; outside production sendEmail never rejects, so unless the save of
  the Digest is rejected distributeSummary returns the Digest marked distributed,
  delivered or not; and a rejection of distributeSummary outside production is the
  rejection of that save, never a failure of the delivery.
\<close>

theorem delivery_rejection_propagates:
  assumes found: "findById (summaries s) summaryId = Some summary"
    and nd: "isDistributed summary = False"
    and rc: "truthy (SUMMARY_RECIPIENT_EMAIL env)"
  shows "(\<forall>e s1. sendEmail env (distributionMail env summary
                                   (orUndefined (SUMMARY_RECIPIENT_EMAIL env))) s = (Inl e, s1)
            \<longrightarrow> NODE_ENV env = Some ''production''
              \<and> (\<exists>s'. distributeSummary env summaryId s = (Inl e, s')
                     \<and> summaries s' = summaries s
                     \<and> findById (summaries s') summaryId = Some summary
                     \<and> last (logged s')
                         = LogError (''Error distributing summary ID '' @ showNat summaryId
                                     @ '':'') e))
       \<and> (\<forall>d s'. distributeSummary env summaryId s = (Inr d, s')
            \<longrightarrow> isDistributed d
              \<and> (\<exists>r s1. sendEmail env (distributionMail env summary
                                          (orUndefined (SUMMARY_RECIPIENT_EMAIL env))) s
                         = (Inr r, s1)))
       \<and> (NODE_ENV env \<noteq> Some ''production'' \<and> saveExistingError env = None
            \<longrightarrow> (\<exists>d s'. distributeSummary env summaryId s = (Inr d, s') \<and> isDistributed d))
       \<and> (\<forall>e s'. NODE_ENV env \<noteq> Some ''production''
                  \<and> distributeSummary env summaryId s = (Inl e, s')
            \<longrightarrow> saveExistingError env = Some e)"
proof (intro conjI allI impI)
  fix e s1
  assume rej: "sendEmail env (distributionMail env summary
                                (orUndefined (SUMMARY_RECIPIENT_EMAIL env))) s = (Inl e, s1)"
  from rej show "NODE_ENV env = Some ''production''" by (rule sendEmail_rejects_production)
  from distributeSummary_rejected [OF found nd rc rej] sendEmail_frame [OF rej] found
  show "\<exists>s'. distributeSummary env summaryId s = (Inl e, s')
             \<and> summaries s' = summaries s
             \<and> findById (summaries s') summaryId = Some summary
             \<and> last (logged s')
                 = LogError (''Error distributing summary ID '' @ showNat summaryId @ '':'') e"
    by (simp add: logError_def)
next
  fix d s'
  assume ok: "distributeSummary env summaryId s = (Inr d, s')"
  let ?mail = "distributionMail env summary (orUndefined (SUMMARY_RECIPIENT_EMAIL env))"
  obtain r s1 where se: "sendEmail env ?mail s = (r, s1)" by fastforce
  have sent: "\<exists>res. r = Inr res"
  proof (cases r)
    case (Inl e)
    with se distributeSummary_rejected [OF found nd rc, of e s1] ok show ?thesis by simp
  next
    case (Inr res)
    then show ?thesis by blast
  qed
  then obtain res where se': "sendEmail env ?mail s = (Inr res, s1)" using se by blast
  show "isDistributed d"
  proof (cases "saveExistingError env")
    case None
    from distributeSummary_sent [OF found nd rc se' None] ok show ?thesis by auto
  next
    case (Some e)
    from distributeSummary_unsaved [OF found nd rc se' Some] ok show ?thesis by auto
  qed
  from se' show "\<exists>r s1. sendEmail env ?mail s = (Inr r, s1)" by blast
next
  assume a: "NODE_ENV env \<noteq> Some ''production'' \<and> saveExistingError env = None"
  then have np: "NODE_ENV env \<noteq> Some ''production''" and ns: "saveExistingError env = None"
    by simp_all
  from sendEmail_outside_production [OF np]
  obtain r s1 where se: "sendEmail env (distributionMail env summary
                           (orUndefined (SUMMARY_RECIPIENT_EMAIL env))) s = (Inr r, s1)"
    by blast
  from distributeSummary_sent [OF found nd rc se ns]
  show "\<exists>d s'. distributeSummary env summaryId s = (Inr d, s') \<and> isDistributed d"
    by auto
next
  fix e s'
  assume a: "NODE_ENV env \<noteq> Some ''production''
             \<and> distributeSummary env summaryId s = (Inl e, s')"
  then have np: "NODE_ENV env \<noteq> Some ''production''"
    and failed: "distributeSummary env summaryId s = (Inl e, s')"
    by simp_all
  from sendEmail_outside_production [OF np]
  obtain r s1 where se: "sendEmail env (distributionMail env summary
                           (orUndefined (SUMMARY_RECIPIENT_EMAIL env))) s = (Inr r, s1)"
    by blast
  show "saveExistingError env = Some e"
  proof (cases "saveExistingError env")
    case None
    from distributeSummary_sent [OF found nd rc se None] failed show ?thesis by auto
  next
    case (Some e')
    from distributeSummary_unsaved [OF found nd rc se Some] failed Some show ?thesis by auto
  qed
qed

theorem delivery_rejection_propagates_witness:
  "findById (summaries worldWithDigest) 1 = Some storedDigest
   \<and> isDistributed storedDigest = False
   \<and> NODE_ENV envProductionMailFails = Some ''production''
   \<and> (\<exists>s'. distributeSummary envProductionMailFails 1 worldWithDigest
              = (Inl (Error ''Resend is unreachable''), s')
          \<and> summaries s' = [storedDigest])
   \<and> NODE_ENV envDevelopmentMailFails = Some ''development''
   \<and> saveExistingError envDevelopmentMailFails = None
   \<and> (\<exists>d s' r s1. distributeSummary envDevelopmentMailFails 1 worldWithDigest = (Inr d, s')
          \<and> isDistributed d
          \<and> sendEmail envDevelopmentMailFails
               (distributionMail envDevelopmentMailFails storedDigest ''reader@example.com'')
               worldWithDigest = (Inr r, s1))
   \<and> NODE_ENV envDevelopmentSaveFails = Some ''development''
   \<and> (\<exists>e s'. distributeSummary envDevelopmentSaveFails 1 worldWithDigest = (Inl e, s')
          \<and> saveExistingError envDevelopmentSaveFails = Some e
          \<and> e = DatabaseError ''connection lost'')"
proof -
  let ?env = envProductionMailFails
  let ?mail = "distributionMail ?env storedDigest (orUndefined (SUMMARY_RECIPIENT_EMAIL ?env))"
  have rc: "truthy (SUMMARY_RECIPIENT_EMAIL ?env)"
    by (simp add: envProductionMailFails_def env0_def truthy_def)
  have prod: "NODE_ENV ?env = Some ''production''"
    by (simp add: envProductionMailFails_def env0_def)
  have svc: "emailService worldWithDigest = Some ResendClient
             \<or> (emailService worldWithDigest = None \<and> truthy (RESEND_API_KEY ?env)
                \<and> resendInitError ?env = None)"
    by (simp add: example_stored envProductionMailFails_def env0_def truthy_def)
  have rej: "resendSend ?env (length (sentMail worldWithDigest)) (outgoing ?env ?mail)
             = Inl (Error ''Resend is unreachable'')"
    by (simp add: envProductionMailFails_def failingResend_def)
  from sendEmail_resend_rejects [OF prod svc rej]
  obtain s1 where se: "sendEmail ?env ?mail worldWithDigest = (Inl (Error ''Resend is unreachable''), s1)"
    by blast
  from delivery_rejection_propagates [OF example_stored(1,2) rc] se
  obtain s' where "distributeSummary ?env 1 worldWithDigest = (Inl (Error ''Resend is unreachable''), s')"
    "summaries s' = summaries worldWithDigest"
    by blast
  with example_stored prod have production:
    "findById (summaries worldWithDigest) 1 = Some storedDigest
     \<and> isDistributed storedDigest = False
     \<and> NODE_ENV envProductionMailFails = Some ''production''
     \<and> (\<exists>s'. distributeSummary envProductionMailFails 1 worldWithDigest
              = (Inl (Error ''Resend is unreachable''), s')
          \<and> summaries s' = [storedDigest])"
    by simp
  let ?dev = envDevelopmentMailFails
  have rcd: "truthy (SUMMARY_RECIPIENT_EMAIL ?dev)"
    and rud: "orUndefined (SUMMARY_RECIPIENT_EMAIL ?dev) = ''reader@example.com''"
    by (simp_all add: envDevelopmentMailFails_def env0_def truthy_def orUndefined_def)
  have dev: "NODE_ENV ?dev = Some ''development''"
    by (simp add: envDevelopmentMailFails_def)
  then have np: "NODE_ENV ?dev \<noteq> Some ''production''" by simp
  have nsd: "saveExistingError ?dev = None"
    by (simp add: envDevelopmentMailFails_def env0_def)
  note inst = delivery_rejection_propagates [OF example_stored(1,2) rcd]
  from inst np nsd obtain d s' where
    d: "distributeSummary ?dev 1 worldWithDigest = (Inr d, s')" "isDistributed d"
    by blast
  from inst d(1) obtain r s1 where
    "sendEmail ?dev (distributionMail ?dev storedDigest (orUndefined (SUMMARY_RECIPIENT_EMAIL ?dev)))
       worldWithDigest = (Inr r, s1)"
    by blast
  with d dev nsd have development:
    "NODE_ENV envDevelopmentMailFails = Some ''development''
     \<and> saveExistingError envDevelopmentMailFails = None
     \<and> (\<exists>d s' r s1. distributeSummary envDevelopmentMailFails 1 worldWithDigest = (Inr d, s')
          \<and> isDistributed d
          \<and> sendEmail envDevelopmentMailFails
               (distributionMail envDevelopmentMailFails storedDigest ''reader@example.com'')
               worldWithDigest = (Inr r, s1))"
    unfolding rud by blast
  let ?dsf = envDevelopmentSaveFails
  have rcf: "truthy (SUMMARY_RECIPIENT_EMAIL ?dsf)"
    by (simp add: envDevelopmentSaveFails_def envDevelopmentMailFails_def env0_def truthy_def)
  have devf: "NODE_ENV ?dsf = Some ''development''"
    by (simp add: envDevelopmentSaveFails_def envDevelopmentMailFails_def)
  then have npf: "NODE_ENV ?dsf \<noteq> Some ''production''" by simp
  have errf: "saveExistingError ?dsf = Some (DatabaseError ''connection lost'')"
    by (simp add: envDevelopmentSaveFails_def)
  from sendEmail_outside_production [OF npf]
  obtain rf sf where sef:
    "sendEmail ?dsf (distributionMail ?dsf storedDigest (orUndefined (SUMMARY_RECIPIENT_EMAIL ?dsf)))
       worldWithDigest = (Inr rf, sf)"
    by blast
  from distributeSummary_unsaved [OF example_stored(1,2) rcf sef errf]
  obtain s'' where rejf: "distributeSummary ?dsf 1 worldWithDigest
                          = (Inl (DatabaseError ''connection lost''), s'')"
    by blast
  from delivery_rejection_propagates [OF example_stored(1,2) rcf] npf rejf
  have "saveExistingError ?dsf = Some (DatabaseError ''connection lost'')"
    by blast
  with rejf devf have save_rejected:
    "NODE_ENV envDevelopmentSaveFails = Some ''development''
     \<and> (\<exists>e s'. distributeSummary envDevelopmentSaveFails 1 worldWithDigest = (Inl e, s')
          \<and> saveExistingError envDevelopmentSaveFails = Some e
          \<and> e = DatabaseError ''connection lost'')"
    by simp
  from production development save_rejected show ?thesis by blast
qed

section \<open>Distributing twice: the claim\<close>

text \<open>
  C10, as the specification states it: two calls of distributeSummary for one Digest
  invoke sendEmail at most once. In production with a mail service that rejects every
  message, the first call rejects, the Digest stays undistributed, and after the second
  call sendEmail has been invoked twice.
\<close>

theorem distribute_twice_counterexample:
  "sentMail worldWithDigest = []
   \<and> length (sentMail (snd (distributeSummary envProductionMailFails 1
               (snd (distributeSummary envProductionMailFails 1 worldWithDigest))))) = 2
   \<and> isl (fst (distributeSummary envProductionMailFails 1 worldWithDigest))"
proof -
  let ?env = envProductionMailFails
  let ?mail = "distributionMail ?env storedDigest (orUndefined (SUMMARY_RECIPIENT_EMAIL ?env))"
  have rc: "truthy (SUMMARY_RECIPIENT_EMAIL ?env)"
    by (simp add: envProductionMailFails_def env0_def truthy_def)
  have prod: "NODE_ENV ?env = Some ''production''"
    by (simp add: envProductionMailFails_def env0_def)
  have key: "truthy (RESEND_API_KEY ?env)" "resendInitError ?env = None"
    by (simp_all add: envProductionMailFails_def env0_def truthy_def)
  have rej: "resendSend ?env n (outgoing ?env ?mail) = Inl (Error ''Resend is unreachable'')" for n
    by (simp add: envProductionMailFails_def failingResend_def)
  have svc: "emailService worldWithDigest = Some ResendClient
             \<or> (emailService worldWithDigest = None \<and> truthy (RESEND_API_KEY ?env)
                \<and> resendInitError ?env = None)"
    by (simp add: example_stored key)
  from sendEmail_resend_rejects [OF prod svc rej]
  obtain s1 where se1: "sendEmail ?env ?mail worldWithDigest = (Inl (Error ''Resend is unreachable''), s1)"
    and es1: "emailService s1 = Some ResendClient"
    by blast
  note fr1 = sendEmail_frame [OF se1]
  let ?w1 = "logError (''Error distributing summary ID '' @ showNat 1 @ '':'')
               (Error ''Resend is unreachable'') s1"
  from distributeSummary_rejected [OF example_stored(1,2) rc se1]
  have d1: "distributeSummary ?env 1 worldWithDigest = (Inl (Error ''Resend is unreachable''), ?w1)" .
  have found2: "findById (summaries ?w1) 1 = Some storedDigest"
    using fr1 example_stored(1) by simp
  have svc2: "emailService ?w1 = Some ResendClient
             \<or> (emailService ?w1 = None \<and> truthy (RESEND_API_KEY ?env)
                \<and> resendInitError ?env = None)"
    using es1 by (simp add: logError_def)
  from sendEmail_resend_rejects [OF prod svc2 rej]
  obtain s2 where se2: "sendEmail ?env ?mail ?w1 = (Inl (Error ''Resend is unreachable''), s2)"
    by blast
  note fr2 = sendEmail_frame [OF se2]
  from distributeSummary_rejected [OF found2 example_stored(2) rc se2]
  have d2: "distributeSummary ?env 1 ?w1
            = (Inl (Error ''Resend is unreachable''),
               logError (''Error distributing summary ID '' @ showNat 1 @ '':'')
                 (Error ''Resend is unreachable'') s2)" .
  have "length (sentMail s2) = 2"
    using fr1 fr2 example_stored(4) by simp
  then show ?thesis
    using d1 d2 example_stored(4) by simp
qed


text \<open>
  C10, amended. Take two calls of distributeSummary for one identifier, the second in
  any environment. Each call invokes sendEmail at most once. When the Digest is already
  marked distributed the call returns it and neither sends mail nor changes the
  summaries. When the first call returns a Digest, it is marked distributed and the
  second call returns the same Digest, sends no mail and changes no summary. And over
  the two calls sendEmail is invoked at most once, except when the first call failed
  after it had invoked sendEmail and left the stored Digest undistributed: either its
  sendEmail rejected, or the mail went and the save of the Digest was rejected without
  reaching the store. Then the first call rejected with that error, the summaries are
  unchanged, and the second call may send again.
\<close>

theorem distribute_twice:
  assumes first: "distributeSummary env summaryId s = (r1, s1)"
    and second: "distributeSummary env' summaryId s1 = (r2, s2)"
  shows "length (sentMail s1) \<le> length (sentMail s) + 1
       \<and> length (sentMail s2) \<le> length (sentMail s1) + 1
       \<and> (\<forall>summary. findById (summaries s) summaryId = Some summary \<and> isDistributed summary
            \<longrightarrow> r1 = Inr summary \<and> sentMail s1 = sentMail s \<and> summaries s1 = summaries s)
       \<and> (\<forall>d. r1 = Inr d
            \<longrightarrow> isDistributed d \<and> r2 = Inr d
              \<and> sentMail s2 = sentMail s1 \<and> summaries s2 = summaries s1)
       \<and> (length (sentMail s2) \<le> length (sentMail s) + 1
          \<or> (\<exists>summary e.
                findById (summaries s) summaryId = Some summary
              \<and> isDistributed summary = False
              \<and> r1 = Inl e \<and> summaries s1 = summaries s
              \<and> ((\<exists>sx. sendEmail env (distributionMail env summary
                                         (orUndefined (SUMMARY_RECIPIENT_EMAIL env))) s
                        = (Inl e, sx))
                 \<or> (\<exists>r sx. sendEmail env (distributionMail env summary
                                           (orUndefined (SUMMARY_RECIPIENT_EMAIL env))) s
                          = (Inr r, sx)
                       \<and> saveExistingError env = Some e
                       \<and> saveExistingWritten env = False))))"
proof (intro conjI allI impI)
  show one: "length (sentMail s1) \<le> length (sentMail s) + 1"
    using first by (rule distributeSummary_sends_at_most_one)
  show two: "length (sentMail s2) \<le> length (sentMail s1) + 1"
    using second by (rule distributeSummary_sends_at_most_one)
  {
    fix summary
    assume a: "findById (summaries s) summaryId = Some summary \<and> isDistributed summary"
    from distributeSummary_already [of s summaryId summary env] a first
    show "r1 = Inr summary" "sentMail s1 = sentMail s" "summaries s1 = summaries s"
      by auto
  }
  have after_stored: "sentMail s2 = sentMail s1 \<and> summaries s2 = summaries s1 \<and> r2 = Inr d"
    if st: "findById (summaries s1) summaryId = Some d" and dd: "isDistributed d" for d
    using distributeSummary_already [OF st dd, of env'] second by auto
  have after_success:
    "isDistributed d \<and> r2 = Inr d \<and> sentMail s2 = sentMail s1 \<and> summaries s2 = summaries s1"
    if r: "r1 = Inr d" for d
  proof -
    from r first have f: "distributeSummary env summaryId s = (Inr d, s1)" by simp
    from distributeSummary_returns_stored [OF f]
    have st: "findById (summaries s1) summaryId = Some d" and dd: "isDistributed d" by simp_all
    from after_stored [OF st dd] dd show ?thesis by simp
  qed
  {
    fix d
    assume r: "r1 = Inr d"
    from after_success [OF r]
    show "isDistributed d" "r2 = Inr d" "sentMail s2 = sentMail s1" "summaries s2 = summaries s1"
      by simp_all
  }
  show "length (sentMail s2) \<le> length (sentMail s) + 1
          \<or> (\<exists>summary e.
                findById (summaries s) summaryId = Some summary
              \<and> isDistributed summary = False
              \<and> r1 = Inl e \<and> summaries s1 = summaries s
              \<and> ((\<exists>sx. sendEmail env (distributionMail env summary
                                         (orUndefined (SUMMARY_RECIPIENT_EMAIL env))) s
                        = (Inl e, sx))
                 \<or> (\<exists>r sx. sendEmail env (distributionMail env summary
                                           (orUndefined (SUMMARY_RECIPIENT_EMAIL env))) s
                          = (Inr r, sx)
                       \<and> saveExistingError env = Some e
                       \<and> saveExistingWritten env = False)))"
  proof (cases rule: distributeSummary_cases [of s summaryId env])
    case (missing e s')
    with first two show ?thesis by simp
  next
    case (already summary s')
    with first two show ?thesis by simp
  next
    case (unconfigured summary e s')
    with first two show ?thesis by simp
  next
    case (rejected summary e sx s')
    with first show ?thesis by auto
  next
    case (unsaved summary r e sx s')
    from unsaved(6) first have r1: "r1 = Inl e" and s1: "s1 = s'" by simp_all
    show ?thesis
    proof (cases "saveExistingWritten env")
      case True
      let ?d = "summary\<lparr>isDistributed := True, distributedAt := Some (now env),
                         distributionRecipients := [orUndefined (SUMMARY_RECIPIENT_EMAIL env)]\<rparr>"
      from findById_Some [OF unsaved(1)] have "summary_id ?d = summaryId" by simp
      from findById_saveExisting [OF unsaved(1) this] unsaved(8) True s1
      have st: "findById (summaries s1) summaryId = Some ?d" by simp
      have "isDistributed ?d" by simp
      from after_stored [OF st this] have "sentMail s2 = sentMail s1" by simp
      with one show ?thesis by simp
    next
      case False
      with unsaved(8) s1 have "summaries s1 = summaries s" by simp
      with unsaved(1,2,4,5) r1 False show ?thesis by blast
    qed
  next
    case (sent summary r sx s')
    with first after_success one show ?thesis by auto
  qed
qed


theorem distribute_twice_witness:
  "(\<exists>d s1 s2. distributeSummary env0 1 worldWithDigest = (Inr d, s1)
      \<and> isDistributed d
      \<and> distributeSummary env0 1 s1 = (Inr d, s2)
      \<and> sentMail worldWithDigest = []
      \<and> length (sentMail s1) = 1 \<and> sentMail s2 = sentMail s1
      \<and> summaries s2 = summaries s1)
   \<and> (\<exists>r sx s1 d s2.
        sendEmail envSaveFails
          (distributionMail envSaveFails storedDigest ''reader@example.com'') worldWithDigest
          = (Inr r, sx)
      \<and> distributeSummary envSaveFails 1 worldWithDigest
          = (Inl (DatabaseError ''connection lost''), s1)
      \<and> summaries s1 = summaries worldWithDigest
      \<and> distributeSummary env0 1 s1 = (Inr d, s2)
      \<and> length (sentMail s2) = 2)"
proof -
  let ?mail = "distributionMail env0 storedDigest (orUndefined (SUMMARY_RECIPIENT_EMAIL env0))"
  have rc: "truthy (SUMMARY_RECIPIENT_EMAIL env0)"
    by (simp add: env0_def truthy_def)
  have ns: "saveExistingError env0 = None" by (simp add: env0_def)
  have key: "truthy (RESEND_API_KEY env0)" "resendInitError env0 = None"
    by (simp_all add: env0_def truthy_def)
  have ok: "resendSend env0 n out
            = Inr \<lparr>result_id = Some ''re-1'', result_mock = False, result_error = None\<rparr>" for n out
    by (simp add: env0_def)
  have noerr: "result_error \<lparr>result_id = Some ''re-1'', result_mock = False,
                              result_error = None\<rparr> = None"
    by simp
  have svc: "emailService worldWithDigest = Some ResendClient
             \<or> (emailService worldWithDigest = None \<and> truthy (RESEND_API_KEY env0)
                \<and> resendInitError env0 = None)"
    by (simp add: example_stored key)
  from sendEmail_resend_delivers [OF svc ok noerr]
  obtain sm where se': "sendEmail env0 ?mail worldWithDigest
         = (Inr \<lparr>result_id = Some ''re-1'', result_mock = False, result_error = None\<rparr>, sm)"
    by blast
  from distributeSummary_sent [OF example_stored(1,2) rc se' ns] sendEmail_frame [OF se']
  obtain d s1 where d1: "distributeSummary env0 1 worldWithDigest = (Inr d, s1)"
    and l1: "sentMail s1 = sentMail worldWithDigest @ [?mail]"
    by auto
  obtain r2 s2 where d2: "distributeSummary env0 1 s1 = (r2, s2)" by fastforce
  from distribute_twice [OF d1 d2]
  have "isDistributed d" "r2 = Inr d" "sentMail s2 = sentMail s1" "summaries s2 = summaries s1"
    by blast+
  with d1 d2 l1 example_stored(4) have once:
    "\<exists>d s1 s2. distributeSummary env0 1 worldWithDigest = (Inr d, s1)
      \<and> isDistributed d
      \<and> distributeSummary env0 1 s1 = (Inr d, s2)
      \<and> sentMail worldWithDigest = []
      \<and> length (sentMail s1) = 1 \<and> sentMail s2 = sentMail s1
      \<and> summaries s2 = summaries s1"
    by auto
  let ?env = envSaveFails
  let ?smail = "distributionMail ?env storedDigest (orUndefined (SUMMARY_RECIPIENT_EMAIL ?env))"
  have mail_eq: "?smail = ?mail" and out_eq: "outgoing ?env ?smail = outgoing env0 ?mail"
    by (simp_all add: envSaveFails_def distributionMail_def emailBodyOf_def outgoing_def)
  have ru: "orUndefined (SUMMARY_RECIPIENT_EMAIL ?env) = ''reader@example.com''"
    by (simp add: envSaveFails_def env0_def orUndefined_def)
  have rcs: "truthy (SUMMARY_RECIPIENT_EMAIL ?env)"
    by (simp add: envSaveFails_def env0_def truthy_def)
  have err: "saveExistingError ?env = Some (DatabaseError ''connection lost'')"
    and nw: "saveExistingWritten ?env = False"
    by (simp_all add: envSaveFails_def env0_def)
  have svcs: "emailService worldWithDigest = Some ResendClient
             \<or> (emailService worldWithDigest = None \<and> truthy (RESEND_API_KEY ?env)
                \<and> resendInitError ?env = None)"
    by (simp add: example_stored envSaveFails_def env0_def truthy_def)
  have oks: "resendSend ?env n out
            = Inr \<lparr>result_id = Some ''re-1'', result_mock = False, result_error = None\<rparr>" for n out
    by (simp add: envSaveFails_def env0_def)
  from sendEmail_resend_delivers [OF svcs oks noerr]
  obtain sx where ses: "sendEmail ?env ?smail worldWithDigest
         = (Inr \<lparr>result_id = Some ''re-1'', result_mock = False, result_error = None\<rparr>, sx)"
    and esx: "emailService sx = Some ResendClient"
    by blast
  from distributeSummary_unsaved [OF example_stored(1,2) rcs ses err] nw
  obtain t1 where f1: "distributeSummary ?env 1 worldWithDigest
                       = (Inl (DatabaseError ''connection lost''), t1)"
    and st1: "summaries t1 = summaries worldWithDigest"
    and sm1: "sentMail t1 = sentMail sx"
    and es1: "emailService t1 = Some ResendClient"
    using esx by auto
  from sendEmail_frame [OF ses] sm1 example_stored(4)
  have len1: "sentMail t1 = [?smail]" by simp
  have found1: "findById (summaries t1) 1 = Some storedDigest"
    using st1 example_stored(1) by simp
  have svc1: "emailService t1 = Some ResendClient
             \<or> (emailService t1 = None \<and> truthy (RESEND_API_KEY env0)
                \<and> resendInitError env0 = None)"
    using es1 by simp
  from sendEmail_resend_delivers [OF svc1 ok noerr]
  obtain sy where se2: "sendEmail env0 ?mail t1
         = (Inr \<lparr>result_id = Some ''re-1'', result_mock = False, result_error = None\<rparr>, sy)"
    by blast
  from distributeSummary_sent [OF found1 example_stored(2) rc se2 ns] sendEmail_frame [OF se2]
  obtain d' t2 where f2: "distributeSummary env0 1 t1 = (Inr d', t2)"
    and l2: "sentMail t2 = sentMail t1 @ [?mail]"
    by auto
  from l2 len1 have two: "length (sentMail t2) = 2" by simp
  from distribute_twice [OF f1 f2] two example_stored(4)
  have unchanged: "summaries t1 = summaries worldWithDigest"
    by auto
  from ses f1 unchanged f2 two have again:
    "\<exists>r sx s1 d s2.
        sendEmail envSaveFails
          (distributionMail envSaveFails storedDigest ''reader@example.com'') worldWithDigest
          = (Inr r, sx)
      \<and> distributeSummary envSaveFails 1 worldWithDigest
          = (Inl (DatabaseError ''connection lost''), s1)
      \<and> summaries s1 = summaries worldWithDigest
      \<and> distributeSummary env0 1 s1 = (Inr d, s2)
      \<and> length (sentMail s2) = 2"
    unfolding ru by blast
  from once again show ?thesis by blast
qed

end
